theory Spec2Isabelle
  imports Main
begin

section \<open>Values of the JavaScript runtime\<close>

text \<open>
  Untyped payloads (\<^verbatim>\<open>data: any\<close>, \<^verbatim>\<open>changes: any\<close>) are trees of
  JavaScript values. An object is the list of its own properties in insertion order. A
  property whose value is \<open>JUndefined\<close> is still a property of the object. \<open>JBigInt\<close>
  stands for the values \<^verbatim>\<open>JSON.stringify\<close> refuses with a TypeError. Numbers are
  only ever copied by the code, never computed with, and are kept as integers.
\<close>

datatype json =
    JUndefined
  | JNull
  | JBool bool
  | JNum int
  | JBigInt int
  | JStr string
  | JArr "json list"
  | JObj "(string \<times> json) list"

datatype error = Error string | TypeError string

text \<open>A field that TypeScript marks optional, and that the mock data also sets to null.\<close>

datatype 'a nullable = Undefined | Null | Value 'a

fun nullable_json :: "('a \<Rightarrow> json) \<Rightarrow> 'a nullable \<Rightarrow> json" where
  "nullable_json f Undefined = JUndefined"
| "nullable_json f Null = JNull"
| "nullable_json f (Value x) = f x"

text \<open>\<^verbatim>\<open>JSON.stringify\<close> throws on a BigInt anywhere in the value.\<close>

fun serializable :: "json \<Rightarrow> bool" where
  "serializable (JBigInt n) = False"
| "serializable (JArr xs) = list_all serializable xs"
| "serializable (JObj kvs) = list_all (\<lambda>kv. serializable (snd kv)) kvs"
| "serializable v = True"

subsection \<open>Strings\<close>

text \<open>
  Strings are lists of 8-bit characters. \<^verbatim>\<open>toLowerCase\<close> is modelled on the ASCII
  letters; other characters are left as they are.
\<close>

definition lower_char :: "char \<Rightarrow> char" where
  "lower_char c =
     (let n = (of_char c :: nat) in if 65 \<le> n \<and> n \<le> 90 then char_of (n + 32) else c)"

definition toLowerCase :: "string \<Rightarrow> string" where
  "toLowerCase s = map lower_char s"

fun startsWith :: "string \<Rightarrow> string \<Rightarrow> bool" where
  "startsWith s [] = True"
| "startsWith [] (c # cs) = False"
| "startsWith (x # xs) (c # cs) = (x = c \<and> startsWith xs cs)"

text \<open>\<^verbatim>\<open>s.includes(sub)\<close>: \<open>sub\<close> occurs in \<open>s\<close> as a contiguous run.\<close>

fun includes_str :: "string \<Rightarrow> string \<Rightarrow> bool" where
  "includes_str [] sub = (sub = [])"
| "includes_str (x # xs) sub = (startsWith (x # xs) sub \<or> includes_str xs sub)"

text \<open>\<^verbatim>\<open>[...new Set(xs)]\<close>: the first occurrence of every element, in order.\<close>

definition setToArray :: "'a list \<Rightarrow> 'a list" where
  "setToArray xs = foldl (\<lambda>s x. if x \<in> set s then s else s @ [x]) [] xs"

subsection \<open>Numbers and dates as text\<close>

definition digit_char :: "int \<Rightarrow> char" where
  "digit_char d = ''0123456789'' ! nat (d mod 10)"

text \<open>The last \<open>k\<close> decimal digits of \<open>n\<close>, zero padded.\<close>

fun pad_digits :: "nat \<Rightarrow> int \<Rightarrow> string" where
  "pad_digits 0 n = []"
| "pad_digits (Suc k) n = pad_digits k (n div 10) @ [digit_char n]"

function decimal :: "int \<Rightarrow> string" where
  "decimal n = (if n < 10 then [digit_char n] else decimal (n div 10) @ [digit_char n])"
  by pat_completeness auto
termination
  by (relation "measure nat") auto

declare decimal.simps [simp del]

text \<open>\<^verbatim>\<open>n.toString()\<close> for an integral number.\<close>

definition int_toString :: "int \<Rightarrow> string" where
  "int_toString i = (if i < 0 then CHR ''-'' # decimal (- i) else decimal i)"

text \<open>
  A \<^verbatim>\<open>Date\<close> is its time value, the milliseconds since the epoch (only valid dates
  are modelled). The calendar date of a day number follows the proleptic Gregorian
  calendar of the language's date algorithms.
\<close>

type_synonym date = int

definition civil_from_days :: "int \<Rightarrow> int \<times> int \<times> int" where
  "civil_from_days days =
     (let z = days + 719468;
          era = z div 146097;
          doe = z - era * 146097;
          yoe = (doe - doe div 1460 + doe div 36524 - doe div 146096) div 365;
          doy = doe - (365 * yoe + yoe div 4 - yoe div 100);
          mp = (5 * doy + 2) div 153;
          d = doy - (153 * mp + 2) div 5 + 1;
          m = (if mp < 10 then mp + 3 else mp - 9);
          y = yoe + era * 400 + (if m \<le> 2 then 1 else 0)
      in (y, m, d))"

definition year_text :: "int \<Rightarrow> string" where
  "year_text y =
     (if 0 \<le> y \<and> y \<le> 9999 then pad_digits 4 y
      else (if y < 0 then CHR ''-'' else CHR ''+'') # pad_digits 6 \<bar>y\<bar>)"

definition toISOString :: "date \<Rightarrow> string" where
  "toISOString t =
     (let (y, m, d) = civil_from_days (t div 86400000);
          ms = t mod 86400000
      in year_text y @ ''-'' @ pad_digits 2 m @ ''-'' @ pad_digits 2 d @ ''T''
         @ pad_digits 2 (ms div 3600000) @ '':'' @ pad_digits 2 (ms div 60000 mod 60) @ '':''
         @ pad_digits 2 (ms div 1000 mod 60) @ ''.'' @ pad_digits 3 (ms mod 1000) @ ''Z'')"

text \<open>\<^verbatim>\<open>getFullYear\<close> reads the year in local time, \<open>offset\<close> milliseconds east of UTC.\<close>

definition getFullYear :: "int \<Rightarrow> date \<Rightarrow> int" where
  "getFullYear offset t = fst (civil_from_days ((t + offset) div 86400000))"

section \<open>Effects: the environment and the observable state\<close>

text \<open>
  What the program cannot decide is an input: the build-time configuration, the browser's
  user agent, the successive readings of the wall clock, the outcome of every call of
  \<^verbatim>\<open>fetch\<close> and the identifiers drawn from \<^verbatim>\<open>uuidv4\<close>.
\<close>

record response =
  status :: nat
  statusText :: string
  body_text :: "error + string"

text \<open>\<^verbatim>\<open>response.ok\<close> is true for the statuses 200 to 299.\<close>

definition ok :: "response \<Rightarrow> bool" where
  "ok r = (200 \<le> status r \<and> status r \<le> 299)"

datatype fetch_outcome = Rejects error | Resolves response

record env =
  VITE_N8N_TEST_URL :: "string option"
  VITE_N8N_PRODUCTION_URL :: "string option"
  DEV :: bool
  userAgent :: string
  clock :: "nat \<Rightarrow> date"
  local_offset :: int
  network :: "nat \<Rightarrow> fetch_outcome"
  uuid :: "nat \<Rightarrow> string"

record actor =
  user_id :: string
  user_name :: string
  user_email :: string
  user_role :: string

record N8NWebhookPayload =
  action :: string
  timestamp :: string
  user :: actor
  data :: json

record request =
  url :: string
  http_method :: string
  headers :: "(string \<times> string) list"
  body :: N8NWebhookPayload

datatype console_arg = Txt string | Exn error | Obj json

datatype console_entry = ConsoleLog "console_arg list" | ConsoleError "console_arg list"

text \<open>
  The state every operation threads through: how many clock readings, \<^verbatim>\<open>fetch\<close>
  calls and identifiers were consumed, the console, the payloads handed to
  \<^verbatim>\<open>sendWebhook\<close> (the emitted envelopes) and the HTTP requests issued. The stores
  of the services extend this record.
\<close>

record runtime =
  reads :: nat
  fetches :: nat
  uuids :: nat
  console :: "console_entry list"
  emitted :: "N8NWebhookPayload list"
  requests :: "request list"

text \<open>An asynchronous function: it ends with an exception (\<open>Inl\<close>) or a value.\<close>

type_synonym ('a, 'w) io = "'w \<Rightarrow> (error + 'a) \<times> 'w"

definition return :: "'a \<Rightarrow> ('a, 'w) io" where
  "return a w = (Inr a, w)"

definition throw :: "error \<Rightarrow> ('a, 'w) io" where
  "throw e w = (Inl e, w)"

definition await :: "('a, 'w) io \<Rightarrow> ('a \<Rightarrow> ('b, 'w) io) \<Rightarrow> ('b, 'w) io" where
  "await m f w = (case m w of (Inl e, w') \<Rightarrow> (Inl e, w') | (Inr a, w') \<Rightarrow> f a w')"

definition try_catch :: "('a, 'w) io \<Rightarrow> (error \<Rightarrow> ('a, 'w) io) \<Rightarrow> ('a, 'w) io" where
  "try_catch m h w = (case m w of (Inl e, w') \<Rightarrow> h e w' | (Inr a, w') \<Rightarrow> (Inr a, w'))"

definition console_log :: "console_arg list \<Rightarrow> (unit, 'a runtime_scheme) io" where
  "console_log args w = (Inr (), w\<lparr>console := console w @ [ConsoleLog args]\<rparr>)"

definition console_error :: "console_arg list \<Rightarrow> (unit, 'a runtime_scheme) io" where
  "console_error args w = (Inr (), w\<lparr>console := console w @ [ConsoleError args]\<rparr>)"

text \<open>\<^verbatim>\<open>new Date()\<close>: the next reading of the clock.\<close>

definition new_Date :: "env \<Rightarrow> (date, 'a runtime_scheme) io" where
  "new_Date e w = (Inr (clock e (reads w)), w\<lparr>reads := Suc (reads w)\<rparr>)"

definition now_ISO :: "env \<Rightarrow> (string, 'a runtime_scheme) io" where
  "now_ISO e = await (new_Date e) (\<lambda>d. return (toISOString d))"

definition uuidv4 :: "env \<Rightarrow> (string, 'a runtime_scheme) io" where
  "uuidv4 e w = (Inr (uuid e (uuids w)), w\<lparr>uuids := Suc (uuids w)\<rparr>)"

text \<open>\<^verbatim>\<open>fetch\<close> records the request; the network decides how it ends.\<close>

definition fetch :: "env \<Rightarrow> request \<Rightarrow> (response, 'a runtime_scheme) io" where
  "fetch e req w =
     (case network e (fetches w) of Rejects err \<Rightarrow> Inl err | Resolves r \<Rightarrow> Inr r,
      w\<lparr>fetches := Suc (fetches w), requests := requests w @ [req]\<rparr>)"

text \<open>The request body is kept as the payload it serialises.\<close>

definition JSON_stringify :: "N8NWebhookPayload \<Rightarrow> (N8NWebhookPayload, 'w) io" where
  "JSON_stringify p =
     (if serializable (data p) then return p
      else throw (TypeError ''Do not know how to serialize a BigInt''))"

definition response_text :: "response \<Rightarrow> (string, 'w) io" where
  "response_text r w = (body_text r, w)"

section \<open>The delivery transport (services/n8nService.ts)\<close>

definition testUrl :: "env \<Rightarrow> string" where
  "testUrl e =
     (case VITE_N8N_TEST_URL e of
        None \<Rightarrow> ''https://mzm836987q3287.app.n8n.cloud/webhook-test/proposal-upload''
      | Some u \<Rightarrow>
          if u = [] then ''https://mzm836987q3287.app.n8n.cloud/webhook-test/proposal-upload''
          else u)"

definition productionUrl :: "env \<Rightarrow> string" where
  "productionUrl e =
     (case VITE_N8N_PRODUCTION_URL e of
        None \<Rightarrow> ''https://mzm836987q3287.app.n8n.cloud/webhook/proposal-upload''
      | Some u \<Rightarrow>
          if u = [] then ''https://mzm836987q3287.app.n8n.cloud/webhook/proposal-upload''
          else u)"

definition webhookUrl :: "env \<Rightarrow> string" where
  "webhookUrl e = (if DEV e then testUrl e else productionUrl e)"

text \<open>The first step records the payload as emitted; the rest is the source's body.\<close>

definition emit :: "N8NWebhookPayload \<Rightarrow> (unit, 'a runtime_scheme) io" where
  "emit p w = (Inr (), w\<lparr>emitted := emitted w @ [p]\<rparr>)"

definition sendWebhook :: "env \<Rightarrow> N8NWebhookPayload \<Rightarrow> (unit, 'a runtime_scheme) io" where
  "sendWebhook e payload =
     try_catch
       (await (emit payload) (\<lambda>_.
        await (console_log
                 [Txt ''Sending N8N webhook:'', Txt (action payload), Txt ''to'',
                  Txt (webhookUrl e)]) (\<lambda>_.
        await (JSON_stringify payload) (\<lambda>json_body.
        await (fetch e
                 \<lparr>url = webhookUrl e, http_method = ''POST'',
                  headers = [(''Content-Type'', ''application/json''),
                             (''User-Agent'', ''Pocketlaw-Dashboard/1.0.0'')],
                  body = json_body\<rparr>) (\<lambda>response.
        if \<not> ok response then
          throw (Error (''N8N webhook failed: '' @ int_toString (int (status response))
                        @ '' '' @ statusText response))
        else
          await (response_text response) (\<lambda>responseData.
          console_log
            [Txt ''N8N webhook sent successfully:'', Txt (action payload),
             Txt responseData]))))))
       (\<lambda>error. console_error [Txt ''Error sending N8N webhook:'', Exn error])"

section \<open>The entities\<close>

text \<open>\<^verbatim>\<open>DocumentMetadata\<close> (services/documentService.ts).\<close>

record DocumentMetadata =
  doc_id :: string
  doc_name :: string
  doc_type :: string
  doc_status :: string
  fileUrl :: string
  fileSize :: int
  mimeType :: string
  doc_tags :: "string list"
  folderId :: "string nullable"
  doc_priority :: string
  doc_dueDate :: "string nullable"
  version :: int
  createdBy :: string
  doc_assignedTo :: "string nullable"
  doc_createdAt :: string
  doc_updatedAt :: string

text \<open>\<^verbatim>\<open>TaskData\<close> (services/taskService.ts); \<open>None\<close> is an absent optional field.\<close>

datatype TaskStatus = Todo | In_progress | Review | Completed | Cancelled

datatype TaskPriority = Low | Medium | High | Urgent

fun status_text :: "TaskStatus \<Rightarrow> string" where
  "status_text Todo = ''todo''"
| "status_text In_progress = ''in_progress''"
| "status_text Review = ''review''"
| "status_text Completed = ''completed''"
| "status_text Cancelled = ''cancelled''"

fun priority_text :: "TaskPriority \<Rightarrow> string" where
  "priority_text Low = ''low''"
| "priority_text Medium = ''medium''"
| "priority_text High = ''high''"
| "priority_text Urgent = ''urgent''"

record TaskData =
  task_id :: string
  title :: string
  description :: string
  task_status :: TaskStatus
  task_priority :: TaskPriority
  task_dueDate :: "string option"
  assignedTo :: string
  assignedBy :: string
  documentId :: "string option"
  estimatedHours :: "int option"
  actualHours :: "int option"
  task_tags :: "string list"
  task_createdAt :: string
  task_updatedAt :: string

text \<open>
  Templates and folders reach the catalog as \<^verbatim>\<open>any\<close>; the records hold the
  properties the catalog reads.
\<close>

record template =
  template_id :: string
  template_name :: string
  category :: string
  isPublic :: bool
  variables :: "json list nullable"
  usageCount :: int

record folder =
  folder_uid :: string
  folder_name :: string
  parentId :: "string nullable"

definition option_json :: "('a \<Rightarrow> json) \<Rightarrow> 'a option \<Rightarrow> json" where
  "option_json f x = (case x of None \<Rightarrow> JUndefined | Some v \<Rightarrow> f v)"

definition strings_json :: "string list \<Rightarrow> json" where
  "strings_json xs = JArr (map JStr xs)"

section \<open>The event catalog (services/n8nService.ts)\<close>

text \<open>
  Every catalog function copies \<^verbatim>\<open>id\<close>, \<^verbatim>\<open>name\<close>, \<^verbatim>\<open>email\<close> and
  \<^verbatim>\<open>role\<close> of the acting user, whatever else the object carries.
\<close>

definition user_fields :: "'u actor_scheme \<Rightarrow> actor" where
  "user_fields u =
     \<lparr>user_id = user_id u, user_name = user_name u, user_email = user_email u,
      user_role = user_role u\<rparr>"

definition documentUploaded ::
  "env \<Rightarrow> 'u actor_scheme \<Rightarrow> DocumentMetadata \<Rightarrow> (unit, 'a runtime_scheme) io" where
  "documentUploaded e usr document =
     await (now_ISO e) (\<lambda>ts.
     sendWebhook e
       \<lparr>action = ''document_uploaded'', timestamp = ts, user = user_fields usr,
        data = JObj [(''document'', JObj
          [(''id'', JStr (doc_id document)),
           (''name'', JStr (doc_name document)),
           (''type'', JStr (doc_type document)),
           (''size'', JNum (fileSize document)),
           (''folderId'', nullable_json JStr (folderId document)),
           (''tags'', strings_json (doc_tags document)),
           (''url'', JStr (fileUrl document)),
           (''status'', JStr (doc_status document)),
           (''priority'', JStr (doc_priority document))])]\<rparr>)"

definition documentViewed ::
  "env \<Rightarrow> 'u actor_scheme \<Rightarrow> DocumentMetadata \<Rightarrow> (unit, 'a runtime_scheme) io" where
  "documentViewed e usr document =
     await (now_ISO e) (\<lambda>ts.
     sendWebhook e
       \<lparr>action = ''document_viewed'', timestamp = ts, user = user_fields usr,
        data = JObj [(''document'', JObj
          [(''id'', JStr (doc_id document)),
           (''name'', JStr (doc_name document)),
           (''type'', JStr (doc_type document))])]\<rparr>)"

definition documentDownloaded ::
  "env \<Rightarrow> 'u actor_scheme \<Rightarrow> DocumentMetadata \<Rightarrow> (unit, 'a runtime_scheme) io" where
  "documentDownloaded e usr document =
     await (now_ISO e) (\<lambda>ts.
     sendWebhook e
       \<lparr>action = ''document_downloaded'', timestamp = ts, user = user_fields usr,
        data = JObj [(''document'', JObj
          [(''id'', JStr (doc_id document)),
           (''name'', JStr (doc_name document)),
           (''type'', JStr (doc_type document)),
           (''size'', JNum (fileSize document))])]\<rparr>)"

definition documentDeleted ::
  "env \<Rightarrow> 'u actor_scheme \<Rightarrow> DocumentMetadata \<Rightarrow> (unit, 'a runtime_scheme) io" where
  "documentDeleted e usr document =
     await (now_ISO e) (\<lambda>ts.
     sendWebhook e
       \<lparr>action = ''document_deleted'', timestamp = ts, user = user_fields usr,
        data = JObj [(''document'', JObj
          [(''id'', JStr (doc_id document)),
           (''name'', JStr (doc_name document)),
           (''type'', JStr (doc_type document))])]\<rparr>)"

definition documentStatusChanged ::
  "env \<Rightarrow> 'u actor_scheme \<Rightarrow> DocumentMetadata \<Rightarrow> string \<Rightarrow> string
     \<Rightarrow> (unit, 'a runtime_scheme) io" where
  "documentStatusChanged e usr document oldStatus newStatus =
     await (now_ISO e) (\<lambda>ts.
     sendWebhook e
       \<lparr>action = ''document_status_changed'', timestamp = ts, user = user_fields usr,
        data = JObj [(''document'', JObj
          [(''id'', JStr (doc_id document)),
           (''name'', JStr (doc_name document)),
           (''oldStatus'', JStr oldStatus),
           (''newStatus'', JStr newStatus)])]\<rparr>)"

definition documentShared ::
  "env \<Rightarrow> 'u actor_scheme \<Rightarrow> DocumentMetadata \<Rightarrow> string list
     \<Rightarrow> (unit, 'a runtime_scheme) io" where
  "documentShared e usr document sharedWith =
     await (now_ISO e) (\<lambda>ts.
     sendWebhook e
       \<lparr>action = ''document_shared'', timestamp = ts, user = user_fields usr,
        data = JObj
          [(''document'', JObj
             [(''id'', JStr (doc_id document)),
              (''name'', JStr (doc_name document))]),
           (''sharedWith'', strings_json sharedWith)]\<rparr>)"

definition documentEdited ::
  "env \<Rightarrow> 'u actor_scheme \<Rightarrow> DocumentMetadata \<Rightarrow> json \<Rightarrow> (unit, 'a runtime_scheme) io" where
  "documentEdited e usr document changes =
     await (now_ISO e) (\<lambda>ts.
     sendWebhook e
       \<lparr>action = ''document_edited'', timestamp = ts, user = user_fields usr,
        data = JObj
          [(''document'', JObj
             [(''id'', JStr (doc_id document)),
              (''name'', JStr (doc_name document)),
              (''type'', JStr (doc_type document))]),
           (''changes'', changes)]\<rparr>)"

definition taskCreated ::
  "env \<Rightarrow> 'u actor_scheme \<Rightarrow> TaskData \<Rightarrow> (unit, 'a runtime_scheme) io" where
  "taskCreated e usr task =
     await (now_ISO e) (\<lambda>ts.
     sendWebhook e
       \<lparr>action = ''task_created'', timestamp = ts, user = user_fields usr,
        data = JObj [(''task'', JObj
          [(''id'', JStr (task_id task)),
           (''title'', JStr (title task)),
           (''description'', JStr (description task)),
           (''priority'', JStr (priority_text (task_priority task))),
           (''assignedTo'', JStr (assignedTo task)),
           (''dueDate'', option_json JStr (task_dueDate task)),
           (''status'', JStr (status_text (task_status task)))])]\<rparr>)"

definition taskUpdated ::
  "env \<Rightarrow> 'u actor_scheme \<Rightarrow> TaskData \<Rightarrow> json \<Rightarrow> (unit, 'a runtime_scheme) io" where
  "taskUpdated e usr task changes =
     await (now_ISO e) (\<lambda>ts.
     sendWebhook e
       \<lparr>action = ''task_updated'', timestamp = ts, user = user_fields usr,
        data = JObj
          [(''task'', JObj
             [(''id'', JStr (task_id task)),
              (''title'', JStr (title task)),
              (''status'', JStr (status_text (task_status task)))]),
           (''changes'', changes)]\<rparr>)"

definition taskCompleted ::
  "env \<Rightarrow> 'u actor_scheme \<Rightarrow> TaskData \<Rightarrow> (unit, 'a runtime_scheme) io" where
  "taskCompleted e usr task =
     await (now_ISO e) (\<lambda>ts.
     await (now_ISO e) (\<lambda>completedAt.
     sendWebhook e
       \<lparr>action = ''task_completed'', timestamp = ts, user = user_fields usr,
        data = JObj [(''task'', JObj
          [(''id'', JStr (task_id task)),
           (''title'', JStr (title task)),
           (''completedAt'', JStr completedAt),
           (''actualHours'', option_json JNum (actualHours task))])]\<rparr>))"

definition taskDeleted ::
  "env \<Rightarrow> 'u actor_scheme \<Rightarrow> TaskData \<Rightarrow> (unit, 'a runtime_scheme) io" where
  "taskDeleted e usr task =
     await (now_ISO e) (\<lambda>ts.
     sendWebhook e
       \<lparr>action = ''task_deleted'', timestamp = ts, user = user_fields usr,
        data = JObj [(''task'', JObj
          [(''id'', JStr (task_id task)),
           (''title'', JStr (title task))])]\<rparr>)"

definition userInvited ::
  "env \<Rightarrow> 'u actor_scheme \<Rightarrow> string \<Rightarrow> string \<Rightarrow> (unit, 'a runtime_scheme) io" where
  "userInvited e inviter invitedEmail role =
     await (now_ISO e) (\<lambda>ts.
     sendWebhook e
       \<lparr>action = ''user_invited'', timestamp = ts, user = user_fields inviter,
        data = JObj [(''invitedEmail'', JStr invitedEmail), (''role'', JStr role)]\<rparr>)"

definition userRoleChanged ::
  "env \<Rightarrow> 'u actor_scheme \<Rightarrow> 'v actor_scheme \<Rightarrow> string \<Rightarrow> string
     \<Rightarrow> (unit, 'a runtime_scheme) io" where
  "userRoleChanged e admin targetUser oldRole newRole =
     await (now_ISO e) (\<lambda>ts.
     sendWebhook e
       \<lparr>action = ''user_role_changed'', timestamp = ts, user = user_fields admin,
        data = JObj
          [(''targetUser'', JObj
             [(''id'', JStr (user_id targetUser)),
              (''name'', JStr (user_name targetUser)),
              (''email'', JStr (user_email targetUser))]),
           (''oldRole'', JStr oldRole),
           (''newRole'', JStr newRole)]\<rparr>)"

definition userProfileUpdated ::
  "env \<Rightarrow> 'u actor_scheme \<Rightarrow> json \<Rightarrow> (unit, 'a runtime_scheme) io" where
  "userProfileUpdated e usr changes =
     await (now_ISO e) (\<lambda>ts.
     sendWebhook e
       \<lparr>action = ''user_profile_updated'', timestamp = ts, user = user_fields usr,
        data = JObj [(''changes'', changes)]\<rparr>)"

text \<open>\<^verbatim>\<open>template.variables?.length || 0\<close>\<close>

definition variables_count :: "template \<Rightarrow> int" where
  "variables_count t = (case variables t of Value vs \<Rightarrow> int (length vs) | _ \<Rightarrow> 0)"

definition templateCreated ::
  "env \<Rightarrow> 'u actor_scheme \<Rightarrow> template \<Rightarrow> (unit, 'a runtime_scheme) io" where
  "templateCreated e usr t =
     await (now_ISO e) (\<lambda>ts.
     sendWebhook e
       \<lparr>action = ''template_created'', timestamp = ts, user = user_fields usr,
        data = JObj [(''template'', JObj
          [(''id'', JStr (template_id t)),
           (''name'', JStr (template_name t)),
           (''category'', JStr (category t)),
           (''isPublic'', JBool (isPublic t)),
           (''variables'', JNum (variables_count t))])]\<rparr>)"

definition templateUsed ::
  "env \<Rightarrow> 'u actor_scheme \<Rightarrow> template \<Rightarrow> (unit, 'a runtime_scheme) io" where
  "templateUsed e usr t =
     await (now_ISO e) (\<lambda>ts.
     sendWebhook e
       \<lparr>action = ''template_used'', timestamp = ts, user = user_fields usr,
        data = JObj [(''template'', JObj
          [(''id'', JStr (template_id t)),
           (''name'', JStr (template_name t)),
           (''usageCount'', JNum (usageCount t))])]\<rparr>)"

definition templateDeleted ::
  "env \<Rightarrow> 'u actor_scheme \<Rightarrow> template \<Rightarrow> (unit, 'a runtime_scheme) io" where
  "templateDeleted e usr t =
     await (now_ISO e) (\<lambda>ts.
     sendWebhook e
       \<lparr>action = ''template_deleted'', timestamp = ts, user = user_fields usr,
        data = JObj [(''template'', JObj
          [(''id'', JStr (template_id t)),
           (''name'', JStr (template_name t)),
           (''category'', JStr (category t))])]\<rparr>)"

definition folderCreated ::
  "env \<Rightarrow> 'u actor_scheme \<Rightarrow> folder \<Rightarrow> (unit, 'a runtime_scheme) io" where
  "folderCreated e usr f =
     await (now_ISO e) (\<lambda>ts.
     sendWebhook e
       \<lparr>action = ''folder_created'', timestamp = ts, user = user_fields usr,
        data = JObj [(''folder'', JObj
          [(''id'', JStr (folder_uid f)),
           (''name'', JStr (folder_name f)),
           (''parentId'', nullable_json JStr (parentId f))])]\<rparr>)"

definition folderDeleted ::
  "env \<Rightarrow> 'u actor_scheme \<Rightarrow> folder \<Rightarrow> (unit, 'a runtime_scheme) io" where
  "folderDeleted e usr f =
     await (now_ISO e) (\<lambda>ts.
     sendWebhook e
       \<lparr>action = ''folder_deleted'', timestamp = ts, user = user_fields usr,
        data = JObj [(''folder'', JObj
          [(''id'', JStr (folder_uid f)),
           (''name'', JStr (folder_name f))])]\<rparr>)"

definition proposalUploaded ::
  "env \<Rightarrow> 'u actor_scheme \<Rightarrow> DocumentMetadata \<Rightarrow> (unit, 'a runtime_scheme) io" where
  "proposalUploaded e usr proposal =
     await (now_ISO e) (\<lambda>ts.
     sendWebhook e
       \<lparr>action = ''proposal_uploaded'', timestamp = ts, user = user_fields usr,
        data = JObj [(''proposal'', JObj
          [(''id'', JStr (doc_id proposal)),
           (''name'', JStr (doc_name proposal)),
           (''type'', JStr (doc_type proposal)),
           (''size'', JNum (fileSize proposal)),
           (''url'', JStr (fileUrl proposal)),
           (''status'', JStr (doc_status proposal)),
           (''tags'', strings_json (doc_tags proposal)),
           (''priority'', JStr (doc_priority proposal))])]\<rparr>)"

definition systemLogin :: "env \<Rightarrow> 'u actor_scheme \<Rightarrow> (unit, 'a runtime_scheme) io" where
  "systemLogin e usr =
     await (now_ISO e) (\<lambda>ts.
     await (now_ISO e) (\<lambda>loginTime.
     sendWebhook e
       \<lparr>action = ''user_login'', timestamp = ts, user = user_fields usr,
        data = JObj
          [(''loginTime'', JStr loginTime),
           (''userAgent'', JStr (userAgent e))]\<rparr>))"

definition systemLogout :: "env \<Rightarrow> 'u actor_scheme \<Rightarrow> (unit, 'a runtime_scheme) io" where
  "systemLogout e usr =
     await (now_ISO e) (\<lambda>ts.
     await (now_ISO e) (\<lambda>logoutTime.
     sendWebhook e
       \<lparr>action = ''user_logout'', timestamp = ts, user = user_fields usr,
        data = JObj [(''logoutTime'', JStr logoutTime)]\<rparr>))"

section \<open>The document service (services/documentService.ts)\<close>

record File =
  file_name :: string
  file_type :: string
  file_size :: int

datatype UploadPriority = Upload_low | Upload_medium | Upload_high

fun upload_priority_text :: "UploadPriority \<Rightarrow> string" where
  "upload_priority_text Upload_low = ''low''"
| "upload_priority_text Upload_medium = ''medium''"
| "upload_priority_text Upload_high = ''high''"

record DocumentUpload =
  upload_file :: File
  upload_folderId :: "string option"
  upload_tags :: "string list option"
  upload_priority :: "UploadPriority option"
  upload_dueDate :: "date option"

text \<open>The snake-case rows that \<^verbatim>\<open>mapToDocumentMetadata\<close> reads.\<close>

record document_row =
  row_id :: string
  row_name :: string
  row_type :: string
  row_status :: string
  file_url :: string
  file_size_bytes :: int
  mime_type :: string
  row_tags :: "string list nullable"
  folder_id :: "string nullable"
  row_priority :: string
  due_date :: "string nullable"
  row_version :: int
  created_by :: string
  assigned_to :: "string nullable"
  created_at :: string
  updated_at :: string

definition mapToDocumentMetadata :: "document_row \<Rightarrow> DocumentMetadata" where
  "mapToDocumentMetadata d =
     \<lparr>doc_id = row_id d,
      doc_name = row_name d,
      doc_type = row_type d,
      doc_status = row_status d,
      fileUrl = file_url d,
      fileSize = file_size_bytes d,
      mimeType = mime_type d,
      doc_tags = (case row_tags d of Value ts \<Rightarrow> ts | _ \<Rightarrow> []),
      folderId = folder_id d,
      doc_priority = row_priority d,
      doc_dueDate = due_date d,
      version = row_version d,
      createdBy = created_by d,
      doc_assignedTo = assigned_to d,
      doc_createdAt = created_at d,
      doc_updatedAt = updated_at d\<rparr>"

definition getDocumentType :: "string \<Rightarrow> string" where
  "getDocumentType mime =
     (if includes_str mime ''pdf'' then ''pdf''
      else if includes_str mime ''word'' then ''document''
      else if includes_str mime ''excel'' then ''spreadsheet''
      else if includes_str mime ''image'' then ''image''
      else if includes_str mime ''text'' then ''text''
      else ''other'')"

text \<open>\<^verbatim>\<open>tags.push(...)\<close> under a condition.\<close>

definition push_if :: "bool \<Rightarrow> string list \<Rightarrow> string list \<Rightarrow> string list" where
  "push_if c new tags = (if c then tags @ new else tags)"

definition generateAutoTags :: "env \<Rightarrow> File \<Rightarrow> (string list, 'a runtime_scheme) io" where
  "generateAutoTags e f =
     (let fileName = toLowerCase (file_name f);
          fileType = file_type f;
          tags = [];
          tags = push_if (includes_str fileType ''pdf'') [''pdf''] tags;
          tags = push_if (includes_str fileType ''word'') [''word'', ''document''] tags;
          tags = push_if (includes_str fileType ''excel'') [''excel'', ''spreadsheet''] tags;
          tags = push_if (includes_str fileType ''image'') [''image''] tags;
          tags = push_if (includes_str fileName ''contract'') [''contract'', ''legal''] tags;
          tags = push_if (includes_str fileName ''nda'') [''nda'', ''confidential''] tags;
          tags = push_if (includes_str fileName ''agreement'') [''agreement'', ''legal''] tags;
          tags = push_if (includes_str fileName ''invoice'') [''invoice'', ''financial''] tags;
          tags = push_if (includes_str fileName ''template'') [''template''] tags;
          tags = push_if (includes_str fileName ''draft'') [''draft''] tags;
          tags = push_if (includes_str fileName ''final'') [''final''] tags;
          tags = push_if (includes_str fileName ''signed'') [''signed''] tags;
          tags = push_if (includes_str fileName ''proposal'') [''proposal'', ''business''] tags
      in await (new_Date e) (\<lambda>today.
         let currentYear = getFullYear (local_offset e) today;
             tags = push_if (includes_str fileName (int_toString currentYear))
                      [int_toString currentYear] tags
         in return tags))"

definition mockUser :: actor where
  "mockUser =
     \<lparr>user_id = ''current-user-id'', user_name = ''Current User'',
      user_email = ''user@example.com'', user_role = ''team''\<rparr>"

definition option_nullable :: "'a option \<Rightarrow> 'a nullable" where
  "option_nullable x = (case x of None \<Rightarrow> Undefined | Some v \<Rightarrow> Value v)"

definition uploadDocument ::
  "env \<Rightarrow> DocumentUpload \<Rightarrow> (DocumentMetadata, 'a runtime_scheme) io" where
  "uploadDocument e uploadData =
     try_catch
       (let f = upload_file uploadData;
            folderId = upload_folderId uploadData;
            tags = (case upload_tags uploadData of None \<Rightarrow> [] | Some ts \<Rightarrow> ts);
            priority = (case upload_priority uploadData of None \<Rightarrow> Upload_medium | Some p \<Rightarrow> p);
            dueDate = upload_dueDate uploadData
        in await (uuidv4 e) (\<lambda>fileId.
           let fileName = fileId @ ''-'' @ file_name f;
               mockFileUrl = ''https://example.com/documents/'' @ fileName
           in await (generateAutoTags e f) (\<lambda>autoTags.
              let allTags = setToArray (tags @ autoTags)
              in await (now_ISO e) (\<lambda>created.
                 await (now_ISO e) (\<lambda>updated.
                 let documentData =
                       \<lparr>row_id = fileId,
                        row_name = file_name f,
                        row_type = getDocumentType (file_type f),
                        row_status = ''draft'',
                        file_url = mockFileUrl,
                        file_size_bytes = file_size f,
                        mime_type = file_type f,
                        row_tags = Value allTags,
                        folder_id = option_nullable folderId,
                        row_priority = upload_priority_text priority,
                        due_date = option_nullable (map_option toISOString dueDate),
                        row_version = 1,
                        created_by = ''current-user-id'',
                        assigned_to = Undefined,
                        created_at = created,
                        updated_at = updated\<rparr>;
                     document = mapToDocumentMetadata documentData
                 in await (documentUploaded e mockUser document) (\<lambda>_.
                    await (if includes_str (toLowerCase (file_name f)) ''proposal''
                              \<or> ''proposal'' \<in> set allTags
                           then proposalUploaded e mockUser document
                           else return ()) (\<lambda>_.
                    return document)))))))
       (\<lambda>error.
          await (console_error [Txt ''Error uploading document:'', Exn error]) (\<lambda>_.
          throw error))"

definition mockDocuments :: "string option \<Rightarrow> document_row list" where
  "mockDocuments folderId' =
     [\<lparr>row_id = ''1'',
       row_name = ''Service Agreement - TechCorp.pdf'',
       row_type = ''pdf'',
       row_status = ''review'',
       file_url = ''https://example.com/documents/service-agreement.pdf'',
       file_size_bytes = 245000,
       mime_type = ''application/pdf'',
       row_tags = Value [''service'', ''tech'', ''annual''],
       folder_id = option_nullable folderId',
       row_priority = ''high'',
       due_date = Value ''2024-02-01T00:00:00.000Z'',
       row_version = 1,
       created_by = ''user-1'',
       assigned_to = Null,
       created_at = ''2024-01-15T00:00:00.000Z'',
       updated_at = ''2024-01-20T00:00:00.000Z''\<rparr>,
      \<lparr>row_id = ''2'',
       row_name = ''NDA Template v2.1.docx'',
       row_type = ''document'',
       row_status = ''signed'',
       file_url = ''https://example.com/documents/nda-template.docx'',
       file_size_bytes = 89000,
       mime_type =
         ''application/vnd.openxmlformats-officedocument.wordprocessingml.document'',
       row_tags = Value [''nda'', ''template'', ''standard''],
       folder_id = option_nullable folderId',
       row_priority = ''medium'',
       due_date = Null,
       row_version = 2,
       created_by = ''user-2'',
       assigned_to = Null,
       created_at = ''2024-01-10T00:00:00.000Z'',
       updated_at = ''2024-01-18T00:00:00.000Z''\<rparr>]"

definition getDocuments ::
  "string option \<Rightarrow> (DocumentMetadata list, 'a runtime_scheme) io" where
  "getDocuments folderId' =
     try_catch
       (return (map mapToDocumentMetadata (mockDocuments folderId')))
       (\<lambda>error.
          await (console_error [Txt ''Error fetching documents:'', Exn error]) (\<lambda>_.
          throw error))"

definition getDocument ::
  "env \<Rightarrow> string \<Rightarrow> (DocumentMetadata option, 'a runtime_scheme) io" where
  "getDocument e ident =
     try_catch
       (await (getDocuments None) (\<lambda>documents.
        let document = find (\<lambda>d. doc_id d = ident) documents
        in await (case document of
                    Some d \<Rightarrow> documentViewed e mockUser d
                  | None \<Rightarrow> return ()) (\<lambda>_.
           return document)))
       (\<lambda>error.
          await (console_error [Txt ''Error fetching document:'', Exn error]) (\<lambda>_.
          throw error))"

record Blob =
  blob_content :: string
  blob_type :: string

definition downloadDocument :: "env \<Rightarrow> string \<Rightarrow> (Blob, 'a runtime_scheme) io" where
  "downloadDocument e ident =
     try_catch
       (await (getDocument e ident) (\<lambda>found.
        case found of
          None \<Rightarrow> throw (Error ''Document not found'')
        | Some document \<Rightarrow>
            await (documentDownloaded e mockUser document) (\<lambda>_.
            let mockContent = ''Mock content for '' @ doc_name document
            in return \<lparr>blob_content = mockContent, blob_type = mimeType document\<rparr>)))
       (\<lambda>error.
          await (console_error [Txt ''Error downloading document:'', Exn error]) (\<lambda>_.
          throw error))"

definition deleteDocument :: "env \<Rightarrow> string \<Rightarrow> (unit, 'a runtime_scheme) io" where
  "deleteDocument e ident =
     try_catch
       (await (getDocument e ident) (\<lambda>found.
        case found of
          None \<Rightarrow> throw (Error ''Document not found'')
        | Some document \<Rightarrow>
            await (documentDeleted e mockUser document) (\<lambda>_.
            console_log [Txt (''Document '' @ ident @ '' deleted successfully'')])))
       (\<lambda>error.
          await (console_error [Txt ''Error deleting document:'', Exn error]) (\<lambda>_.
          throw error))"

text \<open>
  \<^verbatim>\<open>Partial<DocumentMetadata>\<close>: \<open>None\<close> is a key the object does not have.
\<close>

record DocumentUpdates =
  d_id :: "string option"
  d_name :: "string option"
  d_type :: "string option"
  d_status :: "string option"
  d_fileUrl :: "string option"
  d_fileSize :: "int option"
  d_mimeType :: "string option"
  d_tags :: "string list option"
  d_folderId :: "string nullable option"
  d_priority :: "string option"
  d_dueDate :: "string nullable option"
  d_version :: "int option"
  d_createdBy :: "string option"
  d_assignedTo :: "string nullable option"
  d_createdAt :: "string option"
  d_updatedAt :: "string option"

definition override :: "'a \<Rightarrow> 'a option \<Rightarrow> 'a" where
  "override old new = (case new of None \<Rightarrow> old | Some v \<Rightarrow> v)"

definition property :: "string \<Rightarrow> ('a \<Rightarrow> json) \<Rightarrow> 'a option \<Rightarrow> (string \<times> json) list" where
  "property k f x = (case x of None \<Rightarrow> [] | Some v \<Rightarrow> [(k, f v)])"

text \<open>The own properties of an \<^verbatim>\<open>updates\<close> object, in the order of the interface.\<close>

definition document_updates_entries :: "DocumentUpdates \<Rightarrow> (string \<times> json) list" where
  "document_updates_entries u =
     property ''id'' JStr (d_id u) @
     property ''name'' JStr (d_name u) @
     property ''type'' JStr (d_type u) @
     property ''status'' JStr (d_status u) @
     property ''fileUrl'' JStr (d_fileUrl u) @
     property ''fileSize'' JNum (d_fileSize u) @
     property ''mimeType'' JStr (d_mimeType u) @
     property ''tags'' strings_json (d_tags u) @
     property ''folderId'' (nullable_json JStr) (d_folderId u) @
     property ''priority'' JStr (d_priority u) @
     property ''dueDate'' (nullable_json JStr) (d_dueDate u) @
     property ''version'' JNum (d_version u) @
     property ''createdBy'' JStr (d_createdBy u) @
     property ''assignedTo'' (nullable_json JStr) (d_assignedTo u) @
     property ''createdAt'' JStr (d_createdAt u) @
     property ''updatedAt'' JStr (d_updatedAt u)"

text \<open>\<^verbatim>\<open>{ ...currentDoc, ...updates, updatedAt }\<close>\<close>

definition spread_document :: "DocumentMetadata \<Rightarrow> DocumentUpdates \<Rightarrow> string \<Rightarrow> DocumentMetadata" where
  "spread_document currentDoc u updatedAt =
     \<lparr>doc_id = override (doc_id currentDoc) (d_id u),
      doc_name = override (doc_name currentDoc) (d_name u),
      doc_type = override (doc_type currentDoc) (d_type u),
      doc_status = override (doc_status currentDoc) (d_status u),
      fileUrl = override (fileUrl currentDoc) (d_fileUrl u),
      fileSize = override (fileSize currentDoc) (d_fileSize u),
      mimeType = override (mimeType currentDoc) (d_mimeType u),
      doc_tags = override (doc_tags currentDoc) (d_tags u),
      folderId = override (folderId currentDoc) (d_folderId u),
      doc_priority = override (doc_priority currentDoc) (d_priority u),
      doc_dueDate = override (doc_dueDate currentDoc) (d_dueDate u),
      version = override (version currentDoc) (d_version u),
      createdBy = override (createdBy currentDoc) (d_createdBy u),
      doc_assignedTo = override (doc_assignedTo currentDoc) (d_assignedTo u),
      doc_createdAt = override (doc_createdAt currentDoc) (d_createdAt u),
      doc_updatedAt = updatedAt\<rparr>"

text \<open>\<^verbatim>\<open>oldStatus && updates.status && oldStatus !== updates.status\<close>\<close>

definition status_changes :: "string \<Rightarrow> string option \<Rightarrow> bool" where
  "status_changes oldStatus new =
     (oldStatus \<noteq> [] \<and> (case new of None \<Rightarrow> False | Some s \<Rightarrow> s \<noteq> [] \<and> oldStatus \<noteq> s))"

definition updateDocument ::
  "env \<Rightarrow> string \<Rightarrow> DocumentUpdates \<Rightarrow> (DocumentMetadata, 'a runtime_scheme) io" where
  "updateDocument e ident updates =
     try_catch
       (await (getDocument e ident) (\<lambda>found.
        case found of
          None \<Rightarrow> throw (Error ''Document not found'')
        | Some currentDoc \<Rightarrow>
            let oldStatus = doc_status currentDoc
            in await (now_ISO e) (\<lambda>updatedAt.
               let updatedDocument = spread_document currentDoc updates updatedAt
               in await (case d_status updates of
                           Some newStatus \<Rightarrow>
                             if status_changes oldStatus (Some newStatus)
                             then documentStatusChanged e mockUser updatedDocument oldStatus
                                    newStatus
                             else return ()
                         | None \<Rightarrow> return ()) (\<lambda>_.
                  await (if length (document_updates_entries updates) > 0
                         then documentEdited e mockUser updatedDocument
                                (JObj (document_updates_entries updates))
                         else return ()) (\<lambda>_.
                  return updatedDocument)))))
       (\<lambda>error.
          await (console_error [Txt ''Error updating document:'', Exn error]) (\<lambda>_.
          throw error))"

definition shareDocument ::
  "env \<Rightarrow> string \<Rightarrow> string list \<Rightarrow> (unit, 'a runtime_scheme) io" where
  "shareDocument e ident userEmails =
     try_catch
       (await (getDocument e ident) (\<lambda>found.
        case found of
          None \<Rightarrow> throw (Error ''Document not found'')
        | Some document \<Rightarrow>
            await (documentShared e mockUser document userEmails) (\<lambda>_.
            console_log
              [Txt (''Document '' @ ident @ '' shared with:''),
               Obj (strings_json userEmails)])))
       (\<lambda>error.
          await (console_error [Txt ''Error sharing document:'', Exn error]) (\<lambda>_.
          throw error))"

section \<open>The task service (services/taskService.ts)\<close>

record CreateTaskData =
  new_title :: string
  new_description :: string
  new_priority :: TaskPriority
  new_dueDate :: "date option"
  new_assignedTo :: string
  new_documentId :: "string option"
  new_estimatedHours :: "int option"
  new_tags :: "string list option"

text \<open>The service object holds the task list; the initial list is the constructor's.\<close>

record task_store = runtime +
  mockTasks :: "TaskData list"

definition initial_mockTasks :: "TaskData list" where
  "initial_mockTasks =
     [\<lparr>task_id = ''1'',
       title = ''Review TechCorp Service Agreement'',
       description = ''Legal review required for annual service agreement with TechCorp'',
       task_status = In_progress,
       task_priority = High,
       task_dueDate = Some ''2024-01-25T00:00:00.000Z'',
       assignedTo = ''Umar'',
       assignedBy = ''Legal Team'',
       documentId = Some ''1'',
       estimatedHours = Some 4,
       actualHours = Some 2,
       task_tags = [''review'', ''urgent''],
       task_createdAt = ''2024-01-20T00:00:00.000Z'',
       task_updatedAt = ''2024-01-22T00:00:00.000Z''\<rparr>,
      \<lparr>task_id = ''2'',
       title = ''Update NDA Template'',
       description = ''Incorporate new privacy clauses into standard NDA template'',
       task_status = Todo,
       task_priority = Medium,
       task_dueDate = None,
       assignedTo = ''Legal Team'',
       assignedBy = ''Umar'',
       documentId = None,
       estimatedHours = Some 2,
       actualHours = None,
       task_tags = [''template'', ''update''],
       task_createdAt = ''2024-01-18T00:00:00.000Z'',
       task_updatedAt = ''2024-01-18T00:00:00.000Z''\<rparr>]"

definition createTask :: "env \<Rightarrow> CreateTaskData \<Rightarrow> (TaskData, 'a task_store_scheme) io" where
  "createTask e taskData =
     try_catch
       (await (new_Date e) (\<lambda>now.
        await (now_ISO e) (\<lambda>created.
        await (now_ISO e) (\<lambda>updated.
        let newTask =
              \<lparr>task_id = int_toString now,
               title = new_title taskData,
               description = new_description taskData,
               task_status = Todo,
               task_priority = new_priority taskData,
               task_dueDate = map_option toISOString (new_dueDate taskData),
               assignedTo = new_assignedTo taskData,
               assignedBy = ''current-user-id'',
               documentId = new_documentId taskData,
               estimatedHours = new_estimatedHours taskData,
               actualHours = None,
               task_tags = (case new_tags taskData of None \<Rightarrow> [] | Some ts \<Rightarrow> ts),
               task_createdAt = created,
               task_updatedAt = updated\<rparr>
        in await (\<lambda>w. (Inr (), w\<lparr>mockTasks := mockTasks w @ [newTask]\<rparr>)) (\<lambda>_.
           await (taskCreated e mockUser newTask) (\<lambda>_.
           return newTask))))))
       (\<lambda>error.
          await (console_error [Txt ''Error creating task:'', Exn error]) (\<lambda>_.
          throw error))"

text \<open>\<^verbatim>\<open>findIndex\<close>, with \<open>None\<close> for the source's -1.\<close>

fun findIndex :: "('a \<Rightarrow> bool) \<Rightarrow> 'a list \<Rightarrow> nat option" where
  "findIndex P [] = None"
| "findIndex P (x # xs) = (if P x then Some 0 else map_option Suc (findIndex P xs))"

text \<open>
  \<^verbatim>\<open>Partial<TaskData>\<close>: \<open>None\<close> is a key the object does not have; an optional
  field can be present and undefined, as \<^verbatim>\<open>actualHours\<close> is when
  \<^verbatim>\<open>completeTask\<close> is called without hours.
\<close>

record TaskUpdates =
  t_id :: "string option"
  t_title :: "string option"
  t_description :: "string option"
  t_status :: "TaskStatus option"
  t_priority :: "TaskPriority option"
  t_dueDate :: "string option option"
  t_assignedTo :: "string option"
  t_assignedBy :: "string option"
  t_documentId :: "string option option"
  t_estimatedHours :: "int option option"
  t_actualHours :: "int option option"
  t_tags :: "string list option"
  t_createdAt :: "string option"
  t_updatedAt :: "string option"

definition no_updates :: TaskUpdates where
  "no_updates =
     \<lparr>t_id = None, t_title = None, t_description = None, t_status = None,
      t_priority = None, t_dueDate = None, t_assignedTo = None, t_assignedBy = None,
      t_documentId = None, t_estimatedHours = None, t_actualHours = None, t_tags = None,
      t_createdAt = None, t_updatedAt = None\<rparr>"

definition task_updates_entries :: "TaskUpdates \<Rightarrow> (string \<times> json) list" where
  "task_updates_entries u =
     property ''id'' JStr (t_id u) @
     property ''title'' JStr (t_title u) @
     property ''description'' JStr (t_description u) @
     property ''status'' (\<lambda>s. JStr (status_text s)) (t_status u) @
     property ''priority'' (\<lambda>p. JStr (priority_text p)) (t_priority u) @
     property ''dueDate'' (option_json JStr) (t_dueDate u) @
     property ''assignedTo'' JStr (t_assignedTo u) @
     property ''assignedBy'' JStr (t_assignedBy u) @
     property ''documentId'' (option_json JStr) (t_documentId u) @
     property ''estimatedHours'' (option_json JNum) (t_estimatedHours u) @
     property ''actualHours'' (option_json JNum) (t_actualHours u) @
     property ''tags'' strings_json (t_tags u) @
     property ''createdAt'' JStr (t_createdAt u) @
     property ''updatedAt'' JStr (t_updatedAt u)"

text \<open>\<^verbatim>\<open>{ ...oldTask, ...updates, updatedAt }\<close>\<close>

definition spread_task :: "TaskData \<Rightarrow> TaskUpdates \<Rightarrow> string \<Rightarrow> TaskData" where
  "spread_task oldTask u updatedAt =
     \<lparr>task_id = override (task_id oldTask) (t_id u),
      title = override (title oldTask) (t_title u),
      description = override (description oldTask) (t_description u),
      task_status = override (task_status oldTask) (t_status u),
      task_priority = override (task_priority oldTask) (t_priority u),
      task_dueDate = override (task_dueDate oldTask) (t_dueDate u),
      assignedTo = override (assignedTo oldTask) (t_assignedTo u),
      assignedBy = override (assignedBy oldTask) (t_assignedBy u),
      documentId = override (documentId oldTask) (t_documentId u),
      estimatedHours = override (estimatedHours oldTask) (t_estimatedHours u),
      actualHours = override (actualHours oldTask) (t_actualHours u),
      task_tags = override (task_tags oldTask) (t_tags u),
      task_createdAt = override (task_createdAt oldTask) (t_createdAt u),
      task_updatedAt = updatedAt\<rparr>"

definition updateTask ::
  "env \<Rightarrow> string \<Rightarrow> TaskUpdates \<Rightarrow> (TaskData, 'a task_store_scheme) io" where
  "updateTask e ident updates =
     try_catch
       (\<lambda>w.
          case findIndex (\<lambda>task. task_id task = ident) (mockTasks w) of
            None \<Rightarrow> throw (Error ''Task not found'') w
          | Some taskIndex \<Rightarrow>
              (let oldTask = mockTasks w ! taskIndex
               in await (now_ISO e) (\<lambda>updatedAt.
                  let updatedTask = spread_task oldTask updates updatedAt
                  in await (\<lambda>w. (Inr (), w\<lparr>mockTasks := (mockTasks w)[taskIndex := updatedTask]\<rparr>))
                       (\<lambda>_.
                     await (taskUpdated e mockUser updatedTask
                              (JObj (task_updates_entries updates))) (\<lambda>_.
                     return updatedTask)))) w)
       (\<lambda>error.
          await (console_error [Txt ''Error updating task:'', Exn error]) (\<lambda>_.
          throw error))"

definition deleteTask :: "env \<Rightarrow> string \<Rightarrow> (unit, 'a task_store_scheme) io" where
  "deleteTask e ident =
     try_catch
       (\<lambda>w.
          case findIndex (\<lambda>task. task_id task = ident) (mockTasks w) of
            None \<Rightarrow> throw (Error ''Task not found'') w
          | Some taskIndex \<Rightarrow>
              (let task = mockTasks w ! taskIndex
               in await (\<lambda>w. (Inr (), w\<lparr>mockTasks :=
                                   take taskIndex (mockTasks w) @ drop (Suc taskIndex) (mockTasks w)\<rparr>))
                    (\<lambda>_.
                  taskDeleted e mockUser task)) w)
       (\<lambda>error.
          await (console_error [Txt ''Error deleting task:'', Exn error]) (\<lambda>_.
          throw error))"

definition completeTask ::
  "env \<Rightarrow> string \<Rightarrow> int option \<Rightarrow> (TaskData, 'a task_store_scheme) io" where
  "completeTask e ident hours =
     try_catch
       (let updates = no_updates\<lparr>t_status := Some Completed, t_actualHours := Some hours\<rparr>
        in await (updateTask e ident updates) (\<lambda>updatedTask.
           await (taskCompleted e mockUser updatedTask) (\<lambda>_.
           return updatedTask)))
       (\<lambda>error.
          await (console_error [Txt ''Error completing task:'', Exn error]) (\<lambda>_.
          throw error))"

section \<open>Logging out (contexts/AuthContext.tsx)\<close>

text \<open>
  \<^verbatim>\<open>UserProfile\<close> is declared in services/userService.ts; its fields here are the
  ones of the profiles that \<^verbatim>\<open>signIn\<close> builds.
\<close>

record UserProfile = actor +
  department :: string
  phone :: string
  bio :: string
  profile_createdAt :: string
  profile_updatedAt :: string
  lastLogin :: string
  isActive :: bool

record auth_state =
  auth_user :: "UserProfile option"
  isAuthenticated :: bool
  isLoading :: bool

datatype AuthAction =
    AUTH_START
  | AUTH_SUCCESS UserProfile
  | AUTH_FAILURE
  | LOGOUT
  | UPDATE_USER UserProfile

fun authReducer :: "auth_state \<Rightarrow> AuthAction \<Rightarrow> auth_state" where
  "authReducer st AUTH_START = st\<lparr>isLoading := True\<rparr>"
| "authReducer st (AUTH_SUCCESS payload) =
     \<lparr>auth_user = Some payload, isAuthenticated = True, isLoading = False\<rparr>"
| "authReducer st AUTH_FAILURE =
     \<lparr>auth_user = None, isAuthenticated = False, isLoading = False\<rparr>"
| "authReducer st LOGOUT =
     \<lparr>auth_user = None, isAuthenticated = False, isLoading = False\<rparr>"
| "authReducer st (UPDATE_USER payload) = st\<lparr>auth_user := Some payload\<rparr>"

text \<open>The browser: local storage and the reducer's state.\<close>

record browser = runtime +
  localStorage :: "string \<rightharpoonup> string"
  state :: auth_state

definition dispatch :: "AuthAction \<Rightarrow> (unit, 'a browser_scheme) io" where
  "dispatch a w = (Inr (), w\<lparr>state := authReducer (state w) a\<rparr>)"

definition removeItem :: "string \<Rightarrow> (unit, 'a browser_scheme) io" where
  "removeItem k w = (Inr (), w\<lparr>localStorage := (localStorage w)(k := None)\<rparr>)"

definition logout :: "env \<Rightarrow> (unit, 'a browser_scheme) io" where
  "logout e =
     await
       (try_catch
          (\<lambda>w. (case auth_user (state w) of
                   Some u \<Rightarrow> systemLogout e u
                 | None \<Rightarrow> return ()) w)
          (\<lambda>error. console_error [Txt ''Error sending logout webhook:'', Exn error]))
       (\<lambda>_.
        await (removeItem ''pocketlaw_user'') (\<lambda>_.
        dispatch LOGOUT))"

section \<open>Vocabulary of the properties\<close>

text \<open>The state \<^verbatim>\<open>sendWebhook\<close> leaves behind.\<close>

definition delivered :: "env \<Rightarrow> N8NWebhookPayload \<Rightarrow> 'a runtime_scheme \<Rightarrow> 'a runtime_scheme" where
  "delivered e p w = snd (sendWebhook e p w)"

text \<open>The envelopes and the requests one run of an operation adds.\<close>

definition events_of :: "('r, 'a runtime_scheme) io \<Rightarrow> 'a runtime_scheme \<Rightarrow> N8NWebhookPayload list" where
  "events_of m w = drop (length (emitted w)) (emitted (snd (m w)))"

definition requests_of :: "('r, 'a runtime_scheme) io \<Rightarrow> 'a runtime_scheme \<Rightarrow> request list" where
  "requests_of m w = drop (length (requests w)) (requests (snd (m w)))"

definition logged_by :: "('r, 'a runtime_scheme) io \<Rightarrow> 'a runtime_scheme \<Rightarrow> console_entry list" where
  "logged_by m w = drop (length (console w)) (console (snd (m w)))"

text \<open>Property access on a value: a missing property reads as undefined.\<close>

fun get_prop :: "json \<Rightarrow> string \<Rightarrow> json" where
  "get_prop (JObj kvs) k = (case map_of kvs k of Some v \<Rightarrow> v | None \<Rightarrow> JUndefined)"
| "get_prop v k = JUndefined"

fun fields :: "json \<Rightarrow> string list" where
  "fields (JObj kvs) = map fst kvs"
| "fields v = []"

text \<open>
  The table of section 6 of the specification, as written there: for every action the
  fields of \<^verbatim>\<open>data\<close>; a field written \<^verbatim>\<open>name{a,b}\<close> is an object with exactly
  the fields \<^verbatim>\<open>a\<close> and \<^verbatim>\<open>b\<close>.
\<close>

datatype field_spec = Plain string | Nested string "string list"

definition section6_table :: "string \<Rightarrow> field_spec list option" where
  "section6_table a =
     map_of
       [(''document_uploaded'',
           [Nested ''document''
              [''id'', ''name'', ''type'', ''size'', ''folderId'', ''tags'', ''url'',
               ''status'', ''priority'']]),
        (''document_viewed'', [Nested ''document'' [''id'', ''name'', ''type'']]),
        (''document_downloaded'', [Nested ''document'' [''id'', ''name'', ''type'', ''size'']]),
        (''document_deleted'', [Nested ''document'' [''id'', ''name'', ''type'']]),
        (''document_status_changed'',
           [Nested ''document'' [''id'', ''name'', ''oldStatus'', ''newStatus'']]),
        (''document_shared'', [Nested ''document'' [''id'', ''name''], Plain ''sharedWith'']),
        (''document_edited'',
           [Nested ''document'' [''id'', ''name'', ''type''], Plain ''changes'']),
        (''task_created'',
           [Nested ''task''
              [''id'', ''title'', ''description'', ''priority'', ''assignedTo'', ''dueDate'',
               ''status'']]),
        (''task_updated'', [Nested ''task'' [''id'', ''title'', ''status''], Plain ''changes'']),
        (''task_completed'',
           [Nested ''task'' [''id'', ''title'', ''completedAt'', ''actualHours'']]),
        (''task_deleted'', [Nested ''task'' [''id'', ''title'']]),
        (''user_login'', [Plain ''loginTime'', Plain ''userAgent'']),
        (''user_logout'', [Plain ''logoutTime'']),
        (''user_profile_updated'', [Plain ''changes'']),
        (''proposal_uploaded'',
           [Nested ''proposal''
              [''id'', ''name'', ''type'', ''size'', ''url'', ''status'', ''tags'',
               ''priority'']])]
       a"

fun field_ok :: "field_spec \<Rightarrow> string \<times> json \<Rightarrow> bool" where
  "field_ok (Plain k) kv = (fst kv = k)"
| "field_ok (Nested k subs) kv =
     (fst kv = k \<and> (case snd kv of JObj inner \<Rightarrow> map fst inner = subs | _ \<Rightarrow> False))"

text \<open>The object has exactly the fields of the schema, no more and no fewer.\<close>

fun conforms :: "json \<Rightarrow> field_spec list \<Rightarrow> bool" where
  "conforms (JObj kvs) schema = list_all2 field_ok schema kvs"
| "conforms v schema = False"

definition matches_table :: "N8NWebhookPayload \<Rightarrow> bool" where
  "matches_table p =
     (case section6_table (action p) of None \<Rightarrow> False | Some schema \<Rightarrow> conforms (data p) schema)"

text \<open>The actions the catalog emits and the table of section 6 does not list.\<close>

definition unlisted_actions :: "string list" where
  "unlisted_actions =
     [''user_invited'', ''user_role_changed'', ''template_created'', ''template_used'',
      ''template_deleted'', ''folder_created'', ''folder_deleted'']"

text \<open>A call of the catalog, and the function it names.\<close>

datatype 'u catalog_call =
    DocumentUploaded "'u actor_scheme" DocumentMetadata
  | DocumentViewed "'u actor_scheme" DocumentMetadata
  | DocumentDownloaded "'u actor_scheme" DocumentMetadata
  | DocumentDeleted "'u actor_scheme" DocumentMetadata
  | DocumentStatusChanged "'u actor_scheme" DocumentMetadata string string
  | DocumentShared "'u actor_scheme" DocumentMetadata "string list"
  | DocumentEdited "'u actor_scheme" DocumentMetadata json
  | TaskCreated "'u actor_scheme" TaskData
  | TaskUpdated "'u actor_scheme" TaskData json
  | TaskCompleted "'u actor_scheme" TaskData
  | TaskDeleted "'u actor_scheme" TaskData
  | UserInvited "'u actor_scheme" string string
  | UserRoleChanged "'u actor_scheme" "'u actor_scheme" string string
  | UserProfileUpdated "'u actor_scheme" json
  | TemplateCreated "'u actor_scheme" template
  | TemplateUsed "'u actor_scheme" template
  | TemplateDeleted "'u actor_scheme" template
  | FolderCreated "'u actor_scheme" folder
  | FolderDeleted "'u actor_scheme" folder
  | ProposalUploaded "'u actor_scheme" DocumentMetadata
  | SystemLogin "'u actor_scheme"
  | SystemLogout "'u actor_scheme"

fun invoke :: "env \<Rightarrow> 'u catalog_call \<Rightarrow> (unit, 'a runtime_scheme) io" where
  "invoke e (DocumentUploaded u d) = documentUploaded e u d"
| "invoke e (DocumentViewed u d) = documentViewed e u d"
| "invoke e (DocumentDownloaded u d) = documentDownloaded e u d"
| "invoke e (DocumentDeleted u d) = documentDeleted e u d"
| "invoke e (DocumentStatusChanged u d old new) = documentStatusChanged e u d old new"
| "invoke e (DocumentShared u d emails) = documentShared e u d emails"
| "invoke e (DocumentEdited u d changes) = documentEdited e u d changes"
| "invoke e (TaskCreated u t) = taskCreated e u t"
| "invoke e (TaskUpdated u t changes) = taskUpdated e u t changes"
| "invoke e (TaskCompleted u t) = taskCompleted e u t"
| "invoke e (TaskDeleted u t) = taskDeleted e u t"
| "invoke e (UserInvited u email role) = userInvited e u email role"
| "invoke e (UserRoleChanged u target old new) = userRoleChanged e u target old new"
| "invoke e (UserProfileUpdated u changes) = userProfileUpdated e u changes"
| "invoke e (TemplateCreated u t) = templateCreated e u t"
| "invoke e (TemplateUsed u t) = templateUsed e u t"
| "invoke e (TemplateDeleted u t) = templateDeleted e u t"
| "invoke e (FolderCreated u f) = folderCreated e u f"
| "invoke e (FolderDeleted u f) = folderDeleted e u f"
| "invoke e (ProposalUploaded u d) = proposalUploaded e u d"
| "invoke e (SystemLogin u) = systemLogin e u"
| "invoke e (SystemLogout u) = systemLogout e u"

text \<open>
  Where a catalog function writes a clock reading of its own into \<^verbatim>\<open>data\<close>: the
  path of that field, and the value without it.
\<close>

fun clock_field :: "'u catalog_call \<Rightarrow> string list" where
  "clock_field (TaskCompleted u t) = [''task'', ''completedAt'']"
| "clock_field (SystemLogin u) = [''loginTime'']"
| "clock_field (SystemLogout u) = [''logoutTime'']"
| "clock_field c = []"

fun without :: "string list \<Rightarrow> json \<Rightarrow> json" where
  "without [] v = v"
| "without [k] (JObj kvs) = JObj (filter (\<lambda>kv. fst kv \<noteq> k) kvs)"
| "without (k # k' # ks) (JObj kvs) =
     JObj (map (\<lambda>kv. if fst kv = k then (fst kv, without (k' # ks) (snd kv)) else kv) kvs)"
| "without (k # ks) v = v"

subsection \<open>Sample inputs\<close>

definition clock_from :: "date \<Rightarrow> nat \<Rightarrow> date" where
  "clock_from t n = t + 1000 * int n"

definition network_down :: "nat \<Rightarrow> fetch_outcome" where
  "network_down n = Rejects (TypeError ''Failed to fetch'')"

definition network_unavailable :: "nat \<Rightarrow> fetch_outcome" where
  "network_unavailable n =
     Resolves \<lparr>status = 503, statusText = ''Service Unavailable'', body_text = Inr []\<rparr>"

definition network_up :: "nat \<Rightarrow> fetch_outcome" where
  "network_up n = Resolves \<lparr>status = 200, statusText = ''OK'', body_text = Inr ''ok''\<rparr>"

definition uuid_sample :: "nat \<Rightarrow> string" where
  "uuid_sample n = ''00000000-0000-4000-8000-00000000000'' @ [digit_char (int n)]"

text \<open>A production build whose clock starts on 2024-06-01T12:00:00Z, in UTC.\<close>

definition env_2024 :: env where
  "env_2024 =
     \<lparr>VITE_N8N_TEST_URL = None, VITE_N8N_PRODUCTION_URL = None, DEV = False,
      userAgent = ''Mozilla/5.0'', clock = clock_from 1717243200000, local_offset = 0,
      network = network_up, uuid = uuid_sample\<rparr>"

text \<open>The same build with a clock that starts on 2026-11-01T00:00:00Z.\<close>

definition env_2026 :: env where
  "env_2026 = env_2024\<lparr>clock := clock_from 1793491200000\<rparr>"

definition runtime0 :: runtime where
  "runtime0 = \<lparr>reads = 0, fetches = 0, uuids = 0, console = [], emitted = [], requests = []\<rparr>"

definition tasks0 :: task_store where
  "tasks0 =
     \<lparr>reads = 0, fetches = 0, uuids = 0, console = [], emitted = [], requests = [],
      mockTasks = initial_mockTasks\<rparr>"

definition nda_file :: File where
  "nda_file =
     \<lparr>file_name = ''NDA_Agreement_2024.pdf'', file_type = ''application/pdf'',
      file_size = 120000\<rparr>"

definition nda_upload :: DocumentUpload where
  "nda_upload =
     \<lparr>upload_file = nda_file, upload_folderId = None, upload_tags = None,
      upload_priority = None, upload_dueDate = None\<rparr>"

definition signed_out :: auth_state where
  "signed_out = \<lparr>auth_user = None, isAuthenticated = False, isLoading = False\<rparr>"

definition browser0 :: browser where
  "browser0 =
     \<lparr>reads = 0, fetches = 0, uuids = 0, console = [], emitted = [], requests = [],
      localStorage = [''pocketlaw_user'' \<mapsto> ''{}''], state = signed_out\<rparr>"

definition env_down :: env where
  "env_down = env_2024\<lparr>network := network_down\<rparr>"

definition env_unavailable :: env where
  "env_unavailable = env_2024\<lparr>network := network_unavailable\<rparr>"

text \<open>A development build with a configured test endpoint.\<close>

definition env_dev :: env where
  "env_dev = env_2024\<lparr>DEV := True, VITE_N8N_TEST_URL := Some ''http://localhost:5678/webhook-test''\<rparr>"

definition sample_payload :: N8NWebhookPayload where
  "sample_payload =
     \<lparr>action = ''task_deleted'', timestamp = ''2024-06-01T12:00:00.000Z'', user = mockUser,
      data = JObj [(''task'', JObj [(''id'', JStr ''1''), (''title'', JStr ''Review'')])]\<rparr>"

text \<open>A profile update whose changes hold a BigInt, which cannot be serialised.\<close>

definition bigint_payload :: N8NWebhookPayload where
  "bigint_payload =
     \<lparr>action = ''user_profile_updated'', timestamp = ''2024-06-01T12:00:00.000Z'',
      user = mockUser, data = JObj [(''changes'', JObj [(''age'', JBigInt 41)])]\<rparr>"

definition sample_completion :: "unit catalog_call" where
  "sample_completion = TaskCompleted mockUser (initial_mockTasks ! 0)"

definition sample_deletion :: "unit catalog_call" where
  "sample_deletion = TaskDeleted mockUser (initial_mockTasks ! 0)"

text \<open>The envelope a catalog call emits.\<close>

definition envelope_of :: "env \<Rightarrow> 'u catalog_call \<Rightarrow> 'a runtime_scheme \<Rightarrow> N8NWebhookPayload" where
  "envelope_of e c w = last (events_of (invoke e c) w)"

text \<open>The fields of an object together with the fields of each of its values.\<close>

fun shape :: "json \<Rightarrow> (string \<times> string list) list" where
  "shape (JObj kvs) = map (\<lambda>kv. (fst kv, fields (snd kv))) kvs"
| "shape v = []"

definition demo_user :: UserProfile where
  "demo_user =
     \<lparr>user_id = ''2'', user_name = ''Team Member'', user_email = ''team@pocketlaw.com'',
      user_role = ''team'', department = ''Legal'', phone = ''+1 (555) 123-4568'',
      bio = ''Team member focused on document management and client collaboration.'',
      profile_createdAt = ''2023-06-01T00:00:00.000Z'',
      profile_updatedAt = ''2024-06-01T12:00:00.000Z'',
      lastLogin = ''2024-06-01T12:00:00.000Z'', isActive = True\<rparr>"

definition browser_signed_in :: browser where
  "browser_signed_in =
     browser0\<lparr>state := \<lparr>auth_user = Some demo_user, isAuthenticated = True, isLoading = False\<rparr>\<rparr>"

definition no_document_updates :: DocumentUpdates where
  "no_document_updates =
     \<lparr>d_id = None, d_name = None, d_type = None, d_status = None, d_fileUrl = None,
      d_fileSize = None, d_mimeType = None, d_tags = None, d_folderId = None,
      d_priority = None, d_dueDate = None, d_version = None, d_createdBy = None,
      d_assignedTo = None, d_createdAt = None, d_updatedAt = None\<rparr>"

definition approve :: DocumentUpdates where
  "approve = no_document_updates\<lparr>d_status := Some ''approved''\<rparr>"

definition retitle :: TaskUpdates where
  "retitle = no_updates\<lparr>t_title := Some ''Review TechCorp MSA''\<rparr>"

definition sample_task :: CreateTaskData where
  "sample_task =
     \<lparr>new_title = ''File the NDA'', new_description = ''Store the signed copy'',
      new_priority = Low, new_dueDate = None, new_assignedTo = ''Umar'',
      new_documentId = Some ''2'', new_estimatedHours = Some 1, new_tags = None\<rparr>"

definition other_completion :: "unit catalog_call" where
  "other_completion = TaskCompleted mockUser (initial_mockTasks ! 1)"

definition sample_upload_call :: "unit catalog_call" where
  "sample_upload_call =
     DocumentUploaded mockUser (mapToDocumentMetadata (mockDocuments None ! 0))"

definition sample_invitation :: "unit catalog_call" where
  "sample_invitation = UserInvited mockUser ''client@pocketlaw.com'' ''client''"

text \<open>The catalog calls whose action has a row in the table of section 6.\<close>

fun listed :: "'u catalog_call \<Rightarrow> bool" where
  "listed (UserInvited u email role) = False"
| "listed (UserRoleChanged u target old new) = False"
| "listed (TemplateCreated u t) = False"
| "listed (TemplateUsed u t) = False"
| "listed (TemplateDeleted u t) = False"
| "listed (FolderCreated u f) = False"
| "listed (FolderDeleted u f) = False"
| "listed c = True"

definition sample_folder_deletion :: "unit catalog_call" where
  "sample_folder_deletion =
     FolderDeleted mockUser \<lparr>folder_uid = ''7'', folder_name = ''Contracts'', parentId = Null\<rparr>"

section \<open>The transport never raises\<close>

lemmas transport_defs =
  sendWebhook_def try_catch_def await_def emit_def console_log_def console_error_def
  JSON_stringify_def fetch_def throw_def return_def response_text_def

lemma sendWebhook_eq: "sendWebhook e p w = (Inr (), delivered e p w)"
  unfolding delivered_def
  by (simp add: transport_defs split: prod.splits sum.splits fetch_outcome.splits)

lemma delivered_reads: "reads (delivered e p w) = reads w"
  unfolding delivered_def
  by (simp add: transport_defs split: prod.splits sum.splits fetch_outcome.splits)

lemma delivered_uuids: "uuids (delivered e p w) = uuids w"
  unfolding delivered_def
  by (simp add: transport_defs split: prod.splits sum.splits fetch_outcome.splits)

lemma delivered_emitted: "emitted (delivered e p w) = emitted w @ [p]"
  unfolding delivered_def
  by (simp add: transport_defs split: prod.splits sum.splits fetch_outcome.splits)

lemma delivered_more: "runtime.more (delivered e p w) = runtime.more w"
  unfolding delivered_def
  by (simp add: transport_defs split: prod.splits sum.splits fetch_outcome.splits)

lemma delivered_mockTasks: "mockTasks (delivered e p w) = mockTasks w"
  unfolding delivered_def
  by (simp add: transport_defs split: prod.splits sum.splits fetch_outcome.splits)

lemma delivered_state: "state (delivered e p w) = state w"
  unfolding delivered_def
  by (simp add: transport_defs split: prod.splits sum.splits fetch_outcome.splits)

lemma delivered_localStorage: "localStorage (delivered e p w) = localStorage w"
  unfolding delivered_def
  by (simp add: transport_defs split: prod.splits sum.splits fetch_outcome.splits)

lemma delivered_requests:
  "requests (delivered e p w) =
     requests w @ (if serializable (data p)
                   then [\<lparr>url = webhookUrl e, http_method = ''POST'',
                          headers = [(''Content-Type'', ''application/json''),
                                     (''User-Agent'', ''Pocketlaw-Dashboard/1.0.0'')],
                          body = p\<rparr>]
                   else [])"
  unfolding delivered_def
  by (simp add: transport_defs split: prod.splits sum.splits fetch_outcome.splits)

lemmas delivered_simps = sendWebhook_eq delivered_reads delivered_uuids delivered_emitted
  delivered_more delivered_mockTasks delivered_state delivered_localStorage

lemmas io_defs = try_catch_def await_def throw_def return_def console_log_def console_error_def
  new_Date_def now_ISO_def uuidv4_def

lemmas catalog_defs = documentUploaded_def documentViewed_def documentDownloaded_def
  documentDeleted_def documentStatusChanged_def documentShared_def documentEdited_def
  taskCreated_def taskUpdated_def taskCompleted_def taskDeleted_def userInvited_def
  userRoleChanged_def userProfileUpdated_def templateCreated_def templateUsed_def
  templateDeleted_def folderCreated_def folderDeleted_def proposalUploaded_def
  systemLogin_def systemLogout_def

lemma getDocuments_eq: "getDocuments f w = (Inr (map mapToDocumentMetadata (mockDocuments f)), w)"
  by (simp add: getDocuments_def io_defs)

text \<open>What one call of \<^verbatim>\<open>sendWebhook\<close> writes to the console.\<close>

lemma sendWebhook_logs:
  "logged_by (sendWebhook e p) w =
     [ConsoleLog [Txt ''Sending N8N webhook:'', Txt (action p), Txt ''to'', Txt (webhookUrl e)],
      (if \<not> serializable (data p) then
         ConsoleError [Txt ''Error sending N8N webhook:'',
                       Exn (TypeError ''Do not know how to serialize a BigInt'')]
       else (case network e (fetches w) of
         Rejects err \<Rightarrow> ConsoleError [Txt ''Error sending N8N webhook:'', Exn err]
       | Resolves r \<Rightarrow>
           (if \<not> ok r then
             ConsoleError [Txt ''Error sending N8N webhook:'',
                           Exn (Error (''N8N webhook failed: '' @ int_toString (int (status r))
                                       @ '' '' @ statusText r))]
           else (case body_text r of
             Inl err \<Rightarrow> ConsoleError [Txt ''Error sending N8N webhook:'', Exn err]
           | Inr responseData \<Rightarrow>
               ConsoleLog [Txt ''N8N webhook sent successfully:'', Txt (action p),
                           Txt responseData]))))]"
  unfolding logged_by_def
  by (simp add: transport_defs split: prod.splits sum.splits fetch_outcome.splits)

text \<open>The network has no part in what the services return.\<close>

lemma uploadDocument_network:
  "fst (uploadDocument (e\<lparr>network := n\<rparr>) up w) = fst (uploadDocument e up w)"
  by (simp add: uploadDocument_def generateAutoTags_def Let_def io_defs documentUploaded_def
      proposalUploaded_def delivered_simps)

lemma getDocument_network:
  "fst (getDocument (e\<lparr>network := n\<rparr>) ident w) = fst (getDocument e ident w)"
  by (simp add: getDocument_def getDocuments_eq Let_def io_defs documentViewed_def delivered_simps
      split: option.splits)

lemma downloadDocument_network:
  "fst (downloadDocument (e\<lparr>network := n\<rparr>) ident w) = fst (downloadDocument e ident w)"
  by (simp add: downloadDocument_def getDocument_def getDocuments_eq Let_def io_defs documentViewed_def
      documentDownloaded_def delivered_simps split: option.splits)

lemma deleteDocument_network:
  "fst (deleteDocument (e\<lparr>network := n\<rparr>) ident w) = fst (deleteDocument e ident w)"
  by (simp add: deleteDocument_def getDocument_def getDocuments_eq Let_def io_defs documentViewed_def
      documentDeleted_def delivered_simps split: option.splits)

lemma shareDocument_network:
  "fst (shareDocument (e\<lparr>network := n\<rparr>) ident emails w) = fst (shareDocument e ident emails w)"
  by (simp add: shareDocument_def getDocument_def getDocuments_eq Let_def io_defs documentViewed_def
      documentShared_def delivered_simps split: option.splits)

lemma updateDocument_network:
  "fst (updateDocument (e\<lparr>network := n\<rparr>) ident updates w) = fst (updateDocument e ident updates w)"
  by (simp add: updateDocument_def getDocument_def getDocuments_eq Let_def io_defs documentViewed_def
      documentStatusChanged_def documentEdited_def delivered_simps split: option.splits)

lemma createTask_network:
  "fst (createTask (e\<lparr>network := n\<rparr>) td w) = fst (createTask e td w)"
  by (simp add: createTask_def Let_def io_defs taskCreated_def delivered_simps)

lemma updateTask_network:
  "fst (updateTask (e\<lparr>network := n\<rparr>) ident updates w) = fst (updateTask e ident updates w)"
  by (simp add: updateTask_def Let_def io_defs taskUpdated_def delivered_simps split: option.splits)

lemma deleteTask_network:
  "fst (deleteTask (e\<lparr>network := n\<rparr>) ident w) = fst (deleteTask e ident w)"
  by (simp add: deleteTask_def Let_def io_defs taskDeleted_def delivered_simps split: option.splits)

lemma completeTask_network:
  "fst (completeTask (e\<lparr>network := n\<rparr>) ident hours w) = fst (completeTask e ident hours w)"
  by (simp add: completeTask_def updateTask_def Let_def io_defs taskUpdated_def taskCompleted_def
      delivered_simps split: option.splits)

text \<open>
  Claim C2. \<^verbatim>\<open>sendWebhook\<close> returns normally for every payload, in every state
  and whatever the network does. When the payload cannot be serialised, when
  \<^verbatim>\<open>fetch\<close> rejects and when the response has a status outside 200 to 299, the last
  thing it does is to log that error. The outcome each operation of the document and task
  services reports to its caller is the same under any two behaviours of the network.
\<close>

theorem sendWebhook_never_throws:
  "fst (sendWebhook e payload w) = Inr ()
   \<and> (\<not> serializable (data payload) \<longrightarrow>
        last (logged_by (sendWebhook e payload) w) =
          ConsoleError [Txt ''Error sending N8N webhook:'',
                        Exn (TypeError ''Do not know how to serialize a BigInt'')])
   \<and> (\<forall>err. serializable (data payload) \<and> network e (fetches w) = Rejects err \<longrightarrow>
        last (logged_by (sendWebhook e payload) w) =
          ConsoleError [Txt ''Error sending N8N webhook:'', Exn err])
   \<and> (\<forall>r. serializable (data payload) \<and> network e (fetches w) = Resolves r \<and> \<not> ok r \<longrightarrow>
        last (logged_by (sendWebhook e payload) w) =
          ConsoleError [Txt ''Error sending N8N webhook:'',
                        Exn (Error (''N8N webhook failed: '' @ int_toString (int (status r))
                                    @ '' '' @ statusText r))])
   \<and> fst (uploadDocument (e\<lparr>network := n\<rparr>) up w) = fst (uploadDocument e up w)
   \<and> fst (getDocument (e\<lparr>network := n\<rparr>) ident w) = fst (getDocument e ident w)
   \<and> fst (downloadDocument (e\<lparr>network := n\<rparr>) ident w) = fst (downloadDocument e ident w)
   \<and> fst (deleteDocument (e\<lparr>network := n\<rparr>) ident w) = fst (deleteDocument e ident w)
   \<and> fst (updateDocument (e\<lparr>network := n\<rparr>) ident updates w) = fst (updateDocument e ident updates w)
   \<and> fst (shareDocument (e\<lparr>network := n\<rparr>) ident emails w) = fst (shareDocument e ident emails w)
   \<and> fst (createTask (e\<lparr>network := n\<rparr>) taskData ts) = fst (createTask e taskData ts)
   \<and> fst (updateTask (e\<lparr>network := n\<rparr>) ident changes ts) = fst (updateTask e ident changes ts)
   \<and> fst (deleteTask (e\<lparr>network := n\<rparr>) ident ts) = fst (deleteTask e ident ts)
   \<and> fst (completeTask (e\<lparr>network := n\<rparr>) ident hours ts) = fst (completeTask e ident hours ts)"
proof -
  have returns: "fst (sendWebhook e payload w) = Inr ()"
    by (simp add: sendWebhook_eq)
  note logs = sendWebhook_logs [of e payload w]
  have unserializable: "\<not> serializable (data payload) \<longrightarrow>
        last (logged_by (sendWebhook e payload) w) =
          ConsoleError [Txt ''Error sending N8N webhook:'',
                        Exn (TypeError ''Do not know how to serialize a BigInt'')]"
    by (simp add: logs)
  have rejected: "\<forall>err. serializable (data payload) \<and> network e (fetches w) = Rejects err \<longrightarrow>
        last (logged_by (sendWebhook e payload) w) =
          ConsoleError [Txt ''Error sending N8N webhook:'', Exn err]"
    by (simp add: logs)
  have refused: "\<forall>r. serializable (data payload) \<and> network e (fetches w) = Resolves r \<and> \<not> ok r \<longrightarrow>
        last (logged_by (sendWebhook e payload) w) =
          ConsoleError [Txt ''Error sending N8N webhook:'',
                        Exn (Error (''N8N webhook failed: '' @ int_toString (int (status r))
                                    @ '' '' @ statusText r))]"
    by (simp add: logs)
  show ?thesis
    using returns unserializable rejected refused
    by (simp only: uploadDocument_network getDocument_network downloadDocument_network
        deleteDocument_network updateDocument_network shareDocument_network createTask_network
        updateTask_network deleteTask_network completeTask_network simp_thms)
qed

theorem sendWebhook_never_throws_witness:
  "fst (sendWebhook env_2024 bigint_payload runtime0) = Inr ()
   \<and> last (logged_by (sendWebhook env_2024 bigint_payload) runtime0) =
       ConsoleError [Txt ''Error sending N8N webhook:'',
                     Exn (TypeError ''Do not know how to serialize a BigInt'')]
   \<and> fst (sendWebhook env_down sample_payload runtime0) = Inr ()
   \<and> last (logged_by (sendWebhook env_down sample_payload) runtime0) =
       ConsoleError [Txt ''Error sending N8N webhook:'', Exn (TypeError ''Failed to fetch'')]
   \<and> fst (sendWebhook env_unavailable sample_payload runtime0) = Inr ()
   \<and> last (logged_by (sendWebhook env_unavailable sample_payload) runtime0) =
       ConsoleError [Txt ''Error sending N8N webhook:'',
                     Exn (Error ''N8N webhook failed: 503 Service Unavailable'')]"
proof -
  have big: "\<not> serializable (data bigint_payload)"
    by (simp add: bigint_payload_def)
  have fine: "serializable (data sample_payload)"
    by (simp add: sample_payload_def)
  have down: "network env_down (fetches runtime0) = Rejects (TypeError ''Failed to fetch'')"
    by (simp add: env_down_def env_2024_def network_down_def)
  have unavailable: "network env_unavailable (fetches runtime0) =
      Resolves \<lparr>status = 503, statusText = ''Service Unavailable'', body_text = Inr []\<rparr>"
    by (simp add: env_unavailable_def env_2024_def network_unavailable_def)
  have not_ok: "\<not> ok \<lparr>status = 503, statusText = ''Service Unavailable'', body_text = Inr []\<rparr>"
    by (simp add: ok_def)
  have text503: "int_toString 503 = ''503''"
    by code_simp
  from sendWebhook_never_throws [of env_2024 bigint_payload runtime0] big
  have one: "fst (sendWebhook env_2024 bigint_payload runtime0) = Inr ()
      \<and> last (logged_by (sendWebhook env_2024 bigint_payload) runtime0) =
       ConsoleError [Txt ''Error sending N8N webhook:'',
                     Exn (TypeError ''Do not know how to serialize a BigInt'')]"
    by blast
  from sendWebhook_never_throws [of env_down sample_payload runtime0] fine down
  have two: "fst (sendWebhook env_down sample_payload runtime0) = Inr ()
   \<and> last (logged_by (sendWebhook env_down sample_payload) runtime0) =
       ConsoleError [Txt ''Error sending N8N webhook:'', Exn (TypeError ''Failed to fetch'')]"
    by blast
  from sendWebhook_never_throws [of env_unavailable sample_payload runtime0] fine unavailable not_ok
  have "fst (sendWebhook env_unavailable sample_payload runtime0) = Inr ()
   \<and> last (logged_by (sendWebhook env_unavailable sample_payload) runtime0) =
       ConsoleError [Txt ''Error sending N8N webhook:'',
                     Exn (Error (''N8N webhook failed: '' @ int_toString (int (status \<lparr>status = 503, statusText = ''Service Unavailable'', body_text = Inr []\<rparr>))
                                    @ '' '' @ statusText \<lparr>status = 503, statusText = ''Service Unavailable'', body_text = Inr []\<rparr>))]"
    by blast
  then have three: "fst (sendWebhook env_unavailable sample_payload runtime0) = Inr ()
   \<and> last (logged_by (sendWebhook env_unavailable sample_payload) runtime0) =
       ConsoleError [Txt ''Error sending N8N webhook:'',
                     Exn (Error ''N8N webhook failed: 503 Service Unavailable'')]"
    by (simp add: text503)
  from one two three show ?thesis by blast
qed

section \<open>Deleting a document\<close>

lemma find_absent: "k \<notin> doc_id ` set xs \<Longrightarrow> find (\<lambda>d. doc_id d = k) xs = None"
  by (induction xs) auto

lemma find_present: "find (\<lambda>d. doc_id d = k) xs \<noteq> None \<Longrightarrow> k \<in> doc_id ` set xs"
  by (induction xs) (auto split: if_splits)

lemma getDocument_missing:
  "find (\<lambda>d. doc_id d = ident) (map mapToDocumentMetadata (mockDocuments None)) = None
   \<Longrightarrow> getDocument e ident w = (Inr None, w)"
  by (simp add: getDocument_def getDocuments_eq io_defs)

lemma deleteDocument_missing:
  "find (\<lambda>d. doc_id d = ident) (map mapToDocumentMetadata (mockDocuments None)) = None
   \<Longrightarrow> fst (deleteDocument e ident w) = Inl (Error ''Document not found'')
     \<and> events_of (deleteDocument e ident) w = []
     \<and> requests_of (deleteDocument e ident) w = []"
  by (simp add: deleteDocument_def getDocument_missing io_defs events_of_def requests_of_def)

lemma deleteDocument_success:
  "fst (deleteDocument e ident w) = Inr ()
   \<Longrightarrow> find (\<lambda>d. doc_id d = ident) (map mapToDocumentMetadata (mockDocuments None)) \<noteq> None"
  using deleteDocument_missing[of ident e w] by auto

text \<open>
  Claim C7. When the id is the id of none of the documents that \<^verbatim>\<open>getDocuments\<close>
  returns, \<^verbatim>\<open>deleteDocument\<close> ends with the error "Document not found", emits no
  envelope and issues no request.
\<close>

theorem deleteDocument_not_found:
  assumes "fst (getDocuments None w) = Inr docs" and "ident \<notin> doc_id ` set docs"
  shows "fst (deleteDocument e ident w) = Inl (Error ''Document not found'')
         \<and> events_of (deleteDocument e ident) w = []
         \<and> requests_of (deleteDocument e ident) w = []"
proof -
  from assms(1) have "docs = map mapToDocumentMetadata (mockDocuments None)"
    by (simp add: getDocuments_eq)
  with assms(2) have "find (\<lambda>d. doc_id d = ident) (map mapToDocumentMetadata (mockDocuments None)) = None"
    by (intro find_absent) simp
  then show ?thesis by (rule deleteDocument_missing)
qed

theorem deleteDocument_not_found_witness:
  "fst (deleteDocument env_2024 ''3'' runtime0) = Inl (Error ''Document not found'')
   \<and> events_of (deleteDocument env_2024 ''3'') runtime0 = []
   \<and> requests_of (deleteDocument env_2024 ''3'') runtime0 = []"
proof -
  have a: "fst (getDocuments None runtime0) = Inr (map mapToDocumentMetadata (mockDocuments None))"
    by (simp add: getDocuments_eq)
  have b: "''3'' \<notin> doc_id ` set (map mapToDocumentMetadata (mockDocuments None))"
    by (simp add: mockDocuments_def mapToDocumentMetadata_def)
  from deleteDocument_not_found [OF a b] show ?thesis .
qed

text \<open>
  Claim C9. After a successful \<^verbatim>\<open>deleteDocument\<close>, \<^verbatim>\<open>getDocuments\<close> returns
  what it returned before, and the list still holds a document with the deleted id.
\<close>

theorem deleteDocument_keeps_documents:
  assumes "fst (deleteDocument e ident w) = Inr ()"
  shows "fst (getDocuments f (snd (deleteDocument e ident w))) = fst (getDocuments f w)
         \<and> (\<exists>docs. fst (getDocuments None (snd (deleteDocument e ident w))) = Inr docs
                    \<and> ident \<in> doc_id ` set docs)"
proof -
  from assms have "find (\<lambda>d. doc_id d = ident) (map mapToDocumentMetadata (mockDocuments None)) \<noteq> None"
    by (rule deleteDocument_success)
  then have "ident \<in> doc_id ` set (map mapToDocumentMetadata (mockDocuments None))"
    by (rule find_present)
  then show ?thesis by (simp add: getDocuments_eq)
qed

theorem deleteDocument_keeps_documents_witness:
  "fst (getDocuments None (snd (deleteDocument env_2024 ''1'' runtime0)))
     = fst (getDocuments None runtime0)
   \<and> (\<exists>docs. fst (getDocuments None (snd (deleteDocument env_2024 ''1'' runtime0))) = Inr docs
              \<and> ''1'' \<in> doc_id ` set docs)"
proof -
  have "fst (deleteDocument env_2024 ''1'' runtime0) = Inr ()"
    by (simp add: deleteDocument_def getDocument_def getDocuments_eq io_defs documentViewed_def
        documentDeleted_def delivered_simps mockDocuments_def mapToDocumentMetadata_def)
  from deleteDocument_keeps_documents [OF this] show ?thesis .
qed

section \<open>The endpoint\<close>

lemma sendWebhook_requests:
  "requests_of (sendWebhook e p) w =
     (if serializable (data p)
      then [\<lparr>url = webhookUrl e, http_method = ''POST'',
             headers = [(''Content-Type'', ''application/json''),
                        (''User-Agent'', ''Pocketlaw-Dashboard/1.0.0'')],
             body = p\<rparr>]
      else [])"
  by (simp add: requests_of_def sendWebhook_eq delivered_requests)

text \<open>
  Claim C8. The endpoint is the test URL in a development build and the production URL
  otherwise; each URL is its hard-coded default when its variable is unset and the
  configured value when that is a non-empty string; every request \<^verbatim>\<open>sendWebhook\<close>
  issues goes to that endpoint, whatever the payload and the state; and two environments
  that agree on the flag and on the two variables have the same endpoint.
\<close>

theorem endpoint_selection:
  "(DEV e \<longrightarrow> webhookUrl e = testUrl e)
   \<and> (\<not> DEV e \<longrightarrow> webhookUrl e = productionUrl e)
   \<and> (VITE_N8N_TEST_URL e = None \<longrightarrow>
        testUrl e = ''https://mzm836987q3287.app.n8n.cloud/webhook-test/proposal-upload'')
   \<and> (VITE_N8N_PRODUCTION_URL e = None \<longrightarrow>
        productionUrl e = ''https://mzm836987q3287.app.n8n.cloud/webhook/proposal-upload'')
   \<and> (\<forall>u. VITE_N8N_TEST_URL e = Some u \<and> u \<noteq> [] \<longrightarrow> testUrl e = u)
   \<and> (\<forall>u. VITE_N8N_PRODUCTION_URL e = Some u \<and> u \<noteq> [] \<longrightarrow> productionUrl e = u)
   \<and> (\<forall>r \<in> set (requests_of (sendWebhook e payload) w). url r = webhookUrl e)
   \<and> (DEV e' = DEV e \<and> VITE_N8N_TEST_URL e' = VITE_N8N_TEST_URL e
        \<and> VITE_N8N_PRODUCTION_URL e' = VITE_N8N_PRODUCTION_URL e
        \<longrightarrow> webhookUrl e' = webhookUrl e)"
  by (simp add: webhookUrl_def testUrl_def productionUrl_def sendWebhook_requests)

theorem endpoint_selection_witness:
  "webhookUrl env_dev = ''http://localhost:5678/webhook-test''
   \<and> webhookUrl env_2024 = ''https://mzm836987q3287.app.n8n.cloud/webhook/proposal-upload''
   \<and> testUrl env_2024 = ''https://mzm836987q3287.app.n8n.cloud/webhook-test/proposal-upload''
   \<and> map url (requests_of (sendWebhook env_dev sample_payload) runtime0)
       = [''http://localhost:5678/webhook-test'']
   \<and> webhookUrl (env_2024\<lparr>userAgent := ''curl'', clock := clock_from 0\<rparr>) = webhookUrl env_2024"
proof -
  have dev: "DEV env_dev" "VITE_N8N_TEST_URL env_dev = Some ''http://localhost:5678/webhook-test''"
    by (simp_all add: env_dev_def env_2024_def)
  have prod: "\<not> DEV env_2024" "VITE_N8N_PRODUCTION_URL env_2024 = None"
     "VITE_N8N_TEST_URL env_2024 = None"
    by (simp_all add: env_2024_def)
  have nonempty: "''http://localhost:5678/webhook-test'' \<noteq> []"
    by simp
  have sent: "length (requests_of (sendWebhook env_dev sample_payload) runtime0) = 1"
    by (simp add: sendWebhook_requests sample_payload_def)
  from endpoint_selection [of env_dev sample_payload runtime0 env_dev] dev nonempty
  have a: "webhookUrl env_dev = ''http://localhost:5678/webhook-test''"
    and each: "\<forall>r \<in> set (requests_of (sendWebhook env_dev sample_payload) runtime0).
         url r = ''http://localhost:5678/webhook-test''"
    by metis+
  from sent obtain r where r: "requests_of (sendWebhook env_dev sample_payload) runtime0 = [r]"
    by (cases "requests_of (sendWebhook env_dev sample_payload) runtime0") auto
  with each have urls: "map url (requests_of (sendWebhook env_dev sample_payload) runtime0)
       = [''http://localhost:5678/webhook-test'']"
    by simp
  from endpoint_selection [of env_2024 sample_payload runtime0 "env_2024\<lparr>userAgent := ''curl'', clock := clock_from 0\<rparr>"] prod
  have b: "webhookUrl env_2024 = ''https://mzm836987q3287.app.n8n.cloud/webhook/proposal-upload''
     \<and> testUrl env_2024 = ''https://mzm836987q3287.app.n8n.cloud/webhook-test/proposal-upload''
     \<and> webhookUrl (env_2024\<lparr>userAgent := ''curl'', clock := clock_from 0\<rparr>) = webhookUrl env_2024"
    by simp
  from a b urls show ?thesis by blast
qed

section \<open>Logging out\<close>

text \<open>
  Claim C10. \<^verbatim>\<open>logout\<close> always returns normally, removes the stored user record
  and leaves the state unauthenticated with no user. When no user is signed in it emits
  no envelope and issues no request; when one is, it emits one \<^verbatim>\<open>user_logout\<close>.
\<close>

theorem logout_without_user:
  "fst (logout e w) = Inr ()
   \<and> localStorage (snd (logout e w)) ''pocketlaw_user'' = None
   \<and> state (snd (logout e w)) = \<lparr>auth_user = None, isAuthenticated = False, isLoading = False\<rparr>
   \<and> (auth_user (state w) = None \<longrightarrow>
        events_of (logout e) w = [] \<and> requests_of (logout e) w = [])
   \<and> (\<forall>u. auth_user (state w) = Some u \<longrightarrow>
        map action (events_of (logout e) w) = [''user_logout''])"
  by (simp add: logout_def io_defs systemLogout_def delivered_simps dispatch_def removeItem_def
      events_of_def requests_of_def split: option.splits)

theorem logout_without_user_witness:
  "fst (logout env_down browser0) = Inr ()
   \<and> localStorage (snd (logout env_down browser0)) ''pocketlaw_user'' = None
   \<and> state (snd (logout env_down browser0)) = signed_out
   \<and> events_of (logout env_down) browser0 = []
   \<and> requests_of (logout env_down) browser0 = []
   \<and> fst (logout env_down browser_signed_in) = Inr ()
   \<and> map action (events_of (logout env_down) browser_signed_in) = [''user_logout'']"
proof -
  have out: "auth_user (state browser0) = None"
    by (simp add: browser0_def signed_out_def)
  have signed_in: "auth_user (state browser_signed_in) = Some demo_user"
    by (simp add: browser_signed_in_def)
  from logout_without_user [of env_down browser0] out
  have a: "fst (logout env_down browser0) = Inr ()
     \<and> localStorage (snd (logout env_down browser0)) ''pocketlaw_user'' = None
     \<and> state (snd (logout env_down browser0)) = signed_out
     \<and> events_of (logout env_down) browser0 = []
     \<and> requests_of (logout env_down) browser0 = []"
    by (simp add: signed_out_def)
  from logout_without_user [of env_down browser_signed_in] signed_in
  have b: "fst (logout env_down browser_signed_in) = Inr ()
     \<and> map action (events_of (logout env_down) browser_signed_in) = [''user_logout'']"
    by simp
  from a b show ?thesis by blast
qed

section \<open>Completing a task\<close>

lemma findIndex_Some:
  "findIndex P xs = Some i \<Longrightarrow> i < length xs \<and> P (xs ! i)"
  by (induction xs arbitrary: i) (auto split: if_splits)

lemma find_update_first:
  "findIndex P xs = Some i \<Longrightarrow> P t \<Longrightarrow> find P (xs[i := t]) = Some t"
proof (induction xs arbitrary: i)
  case Nil
  then show ?case by simp
next
  case (Cons x xs)
  then show ?case by (cases i) (auto split: if_splits)
qed

lemma updateTask_result:
  assumes "findIndex (\<lambda>task. task_id task = ident) (mockTasks w) = Some i"
  shows "updateTask e ident updates w =
     (Inr (spread_task (mockTasks w ! i) updates (toISOString (clock e (reads w)))),
      delivered e
        \<lparr>action = ''task_updated'', timestamp = toISOString (clock e (Suc (reads w))),
         user = user_fields mockUser,
         data = JObj
          [(''task'', JObj
             [(''id'', JStr (task_id (spread_task (mockTasks w ! i) updates (toISOString (clock e (reads w)))))),
              (''title'', JStr (title (spread_task (mockTasks w ! i) updates (toISOString (clock e (reads w)))))),
              (''status'', JStr (status_text (task_status (spread_task (mockTasks w ! i) updates (toISOString (clock e (reads w)))))))]),
           (''changes'', JObj (task_updates_entries updates))]\<rparr>
        (w\<lparr>mockTasks := (mockTasks w)[i := spread_task (mockTasks w ! i) updates (toISOString (clock e (reads w)))],
           reads := Suc (Suc (reads w))\<rparr>))"
  using assms
  by (simp add: updateTask_def Let_def io_defs taskUpdated_def delivered_simps)

lemma updateTask_missing:
  "findIndex (\<lambda>task. task_id task = ident) (mockTasks w) = None
   \<Longrightarrow> fst (updateTask e ident updates w) = Inl (Error ''Task not found'')"
  by (simp add: updateTask_def Let_def io_defs)

text \<open>
  Claim C5. When the store holds a task with id "2", \<^verbatim>\<open>completeTask("2", 3)\<close>
  succeeds; the task it returns has id "2", status completed and three actual hours and
  replaces the old one in the store; the call emits \<^verbatim>\<open>task_updated\<close> and then
  \<^verbatim>\<open>task_completed\<close>, whose data carries a \<^verbatim>\<open>completedAt\<close> instant and
  \<^verbatim>\<open>actualHours\<close> 3.
\<close>

theorem completeTask_two:
  assumes "findIndex (\<lambda>task. task_id task = ''2'') (mockTasks w) = Some i"
  shows "\<exists>t. fst (completeTask e ''2'' (Some 3) w) = Inr t
           \<and> task_id t = ''2'' \<and> task_status t = Completed \<and> actualHours t = Some 3
           \<and> mockTasks (snd (completeTask e ''2'' (Some 3) w)) = (mockTasks w)[i := t]
           \<and> find (\<lambda>task. task_id task = ''2'') (mockTasks (snd (completeTask e ''2'' (Some 3) w)))
               = Some t
           \<and> map action (events_of (completeTask e ''2'' (Some 3)) w)
               = [''task_updated'', ''task_completed'']
           \<and> data (last (events_of (completeTask e ''2'' (Some 3)) w))
               = JObj [(''task'', JObj
                   [(''id'', JStr ''2''),
                    (''title'', JStr (title t)),
                    (''completedAt'', JStr (toISOString (clock e (reads w + 3)))),
                    (''actualHours'', JNum 3)])]"
proof -
  from assms have old: "i < length (mockTasks w)" "task_id (mockTasks w ! i) = ''2''"
    using findIndex_Some [of "\<lambda>task. task_id task = ''2''" "mockTasks w" i] by simp_all
  let ?u = "no_updates\<lparr>t_status := Some Completed, t_actualHours := Some (Some 3)\<rparr>"
  let ?t = "spread_task (mockTasks w ! i) ?u (toISOString (clock e (reads w)))"
  have t: "task_id ?t = ''2''" "task_status ?t = Completed" "actualHours ?t = Some 3"
    using old by (simp_all add: spread_task_def override_def no_updates_def)
  have found: "find (\<lambda>task. task_id task = ''2'') ((mockTasks w)[i := ?t]) = Some ?t"
    using assms t(1) by (rule find_update_first)
  have run: "fst (completeTask e ''2'' (Some 3) w) = Inr ?t"
     "mockTasks (snd (completeTask e ''2'' (Some 3) w)) = (mockTasks w)[i := ?t]"
     "map action (events_of (completeTask e ''2'' (Some 3)) w) = [''task_updated'', ''task_completed'']"
     "data (last (events_of (completeTask e ''2'' (Some 3)) w))
               = JObj [(''task'', JObj
                   [(''id'', JStr (task_id ?t)),
                    (''title'', JStr (title ?t)),
                    (''completedAt'', JStr (toISOString (clock e (reads w + 3)))),
                    (''actualHours'', option_json JNum (actualHours ?t))])]"
    by (simp_all add: completeTask_def updateTask_result [OF assms] Let_def io_defs
        taskCompleted_def delivered_simps events_of_def numeral_3_eq_3)
  show ?thesis
    using t found run by (intro exI [of _ ?t]) (simp add: option_json_def)
qed

theorem completeTask_two_witness:
  "\<exists>t. fst (completeTask env_2024 ''2'' (Some 3) tasks0) = Inr t
           \<and> task_id t = ''2'' \<and> task_status t = Completed \<and> actualHours t = Some 3
           \<and> mockTasks (snd (completeTask env_2024 ''2'' (Some 3) tasks0)) = (mockTasks tasks0)[1 := t]
           \<and> find (\<lambda>task. task_id task = ''2'') (mockTasks (snd (completeTask env_2024 ''2'' (Some 3) tasks0)))
               = Some t
           \<and> map action (events_of (completeTask env_2024 ''2'' (Some 3)) tasks0)
               = [''task_updated'', ''task_completed'']
           \<and> data (last (events_of (completeTask env_2024 ''2'' (Some 3)) tasks0))
               = JObj [(''task'', JObj
                   [(''id'', JStr ''2''),
                    (''title'', JStr (title t)),
                    (''completedAt'', JStr (toISOString (clock env_2024 (reads tasks0 + 3)))),
                    (''actualHours'', JNum 3)])]"
proof -
  have "findIndex (\<lambda>task. task_id task = ''2'') (mockTasks tasks0) = Some 1"
    by (simp add: tasks0_def initial_mockTasks_def)
  from completeTask_two [OF this] show ?thesis .
qed

section \<open>What the mutations emit\<close>

lemmas table_defs = matches_table_def section6_table_def

lemma generateAutoTags_returns:
  "\<exists>tags. generateAutoTags e f w = (Inr tags, w\<lparr>reads := Suc (reads w)\<rparr>)"
  by (simp add: generateAutoTags_def Let_def io_defs)

lemma uploadDocument_events:
  "\<exists>d. fst (uploadDocument e up w) = Inr d \<and>
     map action (events_of (uploadDocument e up) w) =
       (if includes_str (toLowerCase (file_name (upload_file up))) ''proposal''
           \<or> ''proposal'' \<in> set (doc_tags d)
        then [''document_uploaded'', ''proposal_uploaded''] else [''document_uploaded''])
    \<and> list_all matches_table (events_of (uploadDocument e up) w)"
proof -
  obtain tags where t: "generateAutoTags e (upload_file up) (w\<lparr>uuids := Suc (uuids w)\<rparr>)
      = (Inr tags, w\<lparr>uuids := Suc (uuids w), reads := Suc (reads w)\<rparr>)"
    using generateAutoTags_returns [of e "upload_file up" "w\<lparr>uuids := Suc (uuids w)\<rparr>"] by auto
  show ?thesis
    by (simp add: uploadDocument_def Let_def io_defs t events_of_def documentUploaded_def
        proposalUploaded_def delivered_simps mapToDocumentMetadata_def table_defs strings_json_def)
qed

lemma getDocument_found:
  "find (\<lambda>d. doc_id d = ident) (map mapToDocumentMetadata (mockDocuments None)) = Some d
   \<Longrightarrow> getDocument e ident w =
        (Inr (Some d),
         delivered e
           \<lparr>action = ''document_viewed'', timestamp = toISOString (clock e (reads w)),
            user = user_fields mockUser,
            data = JObj [(''document'', JObj
              [(''id'', JStr (doc_id d)), (''name'', JStr (doc_name d)),
               (''type'', JStr (doc_type d))])]\<rparr>
           (w\<lparr>reads := Suc (reads w)\<rparr>))"
  by (simp add: getDocument_def getDocuments_eq io_defs documentViewed_def delivered_simps)

lemma deleteDocument_events:
  "fst (deleteDocument e ident w) = Inr () \<Longrightarrow>
     map action (events_of (deleteDocument e ident) w) = [''document_viewed'', ''document_deleted'']
     \<and> list_all matches_table (events_of (deleteDocument e ident) w)"
  by (cases "find (\<lambda>d. doc_id d = ident) (map mapToDocumentMetadata (mockDocuments None))")
     (simp_all add: deleteDocument_def getDocument_missing getDocument_found io_defs events_of_def
        documentDeleted_def delivered_simps table_defs)

lemma downloadDocument_events:
  "fst (downloadDocument e ident w) = Inr b \<Longrightarrow>
     map action (events_of (downloadDocument e ident) w) = [''document_viewed'', ''document_downloaded'']
     \<and> list_all matches_table (events_of (downloadDocument e ident) w)"
  by (cases "find (\<lambda>d. doc_id d = ident) (map mapToDocumentMetadata (mockDocuments None))")
     (simp_all add: downloadDocument_def getDocument_missing getDocument_found io_defs events_of_def
        documentDownloaded_def delivered_simps table_defs)

lemma shareDocument_events:
  "fst (shareDocument e ident emails w) = Inr () \<Longrightarrow>
     map action (events_of (shareDocument e ident emails) w) = [''document_viewed'', ''document_shared'']
     \<and> list_all matches_table (events_of (shareDocument e ident emails) w)"
  by (cases "find (\<lambda>d. doc_id d = ident) (map mapToDocumentMetadata (mockDocuments None))")
     (simp_all add: shareDocument_def getDocument_missing getDocument_found io_defs events_of_def
        documentShared_def delivered_simps table_defs)

lemma status_changes_None: "status_changes oldStatus None = False"
  by (simp add: status_changes_def)

lemma updateDocument_events:
  "fst (updateDocument e ident updates w) = Inr d \<Longrightarrow>
     (\<exists>cur. find (\<lambda>x. doc_id x = ident) (map mapToDocumentMetadata (mockDocuments None)) = Some cur
        \<and> map action (events_of (updateDocument e ident updates) w) =
            ''document_viewed'' #
            (if status_changes (doc_status cur) (d_status updates)
             then [''document_status_changed''] else []) @
            (if document_updates_entries updates \<noteq> [] then [''document_edited''] else []))
     \<and> list_all matches_table (events_of (updateDocument e ident updates) w)"
  by (cases "find (\<lambda>d. doc_id d = ident) (map mapToDocumentMetadata (mockDocuments None))";
      cases "d_status updates")
     (simp_all add: updateDocument_def getDocument_missing getDocument_found Let_def io_defs
        events_of_def documentStatusChanged_def documentEdited_def delivered_simps table_defs
        status_changes_None)

lemma createTask_events:
  "(\<exists>t. fst (createTask e taskData w) = Inr t)
   \<and> map action (events_of (createTask e taskData) w) = [''task_created'']
   \<and> list_all matches_table (events_of (createTask e taskData) w)"
  by (simp add: createTask_def Let_def io_defs events_of_def taskCreated_def delivered_simps table_defs)

lemma updateTask_events:
  "fst (updateTask e ident updates w) = Inr t \<Longrightarrow>
     map action (events_of (updateTask e ident updates) w) = [''task_updated'']
     \<and> list_all matches_table (events_of (updateTask e ident updates) w)"
  by (cases "findIndex (\<lambda>task. task_id task = ident) (mockTasks w)")
     (simp_all add: updateTask_missing updateTask_result events_of_def delivered_simps table_defs)

lemma deleteTask_events:
  "fst (deleteTask e ident w) = Inr () \<Longrightarrow>
     map action (events_of (deleteTask e ident) w) = [''task_deleted'']
     \<and> list_all matches_table (events_of (deleteTask e ident) w)"
  by (cases "findIndex (\<lambda>task. task_id task = ident) (mockTasks w)")
     (simp_all add: deleteTask_def Let_def io_defs events_of_def taskDeleted_def delivered_simps table_defs)

lemma completeTask_events:
  "fst (completeTask e ident hours w) = Inr t \<Longrightarrow>
     map action (events_of (completeTask e ident hours) w) = [''task_updated'', ''task_completed'']
     \<and> list_all matches_table (events_of (completeTask e ident hours) w)"
  by (cases "findIndex (\<lambda>task. task_id task = ident) (mockTasks w)")
     (simp_all add: completeTask_def updateTask_def Let_def io_defs events_of_def taskUpdated_def
        taskCompleted_def delivered_simps table_defs)

text \<open>
  Claim C1, as amended. A successful mutation emits the envelopes listed here, in this
  order, and each of them has exactly the data fields the table of section 6 gives for
  its action. Creating, updating and deleting a task emit one envelope. Completing a task
  emits \<^verbatim>\<open>task_updated\<close> and then \<^verbatim>\<open>task_completed\<close>. Deleting, downloading and
  sharing a document emit \<^verbatim>\<open>document_viewed\<close> and then their own envelope. An upload
  emits \<^verbatim>\<open>document_uploaded\<close>, followed by \<^verbatim>\<open>proposal_uploaded\<close> when the
  lower-cased file name contains "proposal" or the tags include it. Updating a document
  emits \<^verbatim>\<open>document_viewed\<close>, then \<^verbatim>\<open>document_status_changed\<close> when the status
  changes, then \<^verbatim>\<open>document_edited\<close> when the update has at least one key.
\<close>

theorem mutation_events:
  "(\<forall>d. fst (uploadDocument e up w) = Inr d \<longrightarrow>
      map action (events_of (uploadDocument e up) w) =
        (if includes_str (toLowerCase (file_name (upload_file up))) ''proposal''
            \<or> ''proposal'' \<in> set (doc_tags d)
         then [''document_uploaded'', ''proposal_uploaded''] else [''document_uploaded''])
      \<and> list_all matches_table (events_of (uploadDocument e up) w))
   \<and> (fst (deleteDocument e ident w) = Inr () \<longrightarrow>
      map action (events_of (deleteDocument e ident) w) = [''document_viewed'', ''document_deleted'']
      \<and> list_all matches_table (events_of (deleteDocument e ident) w))
   \<and> (\<forall>b. fst (downloadDocument e ident w) = Inr b \<longrightarrow>
      map action (events_of (downloadDocument e ident) w)
        = [''document_viewed'', ''document_downloaded'']
      \<and> list_all matches_table (events_of (downloadDocument e ident) w))
   \<and> (fst (shareDocument e ident emails w) = Inr () \<longrightarrow>
      map action (events_of (shareDocument e ident emails) w)
        = [''document_viewed'', ''document_shared'']
      \<and> list_all matches_table (events_of (shareDocument e ident emails) w))
   \<and> (\<forall>d. fst (updateDocument e ident updates w) = Inr d \<longrightarrow>
      (\<exists>cur. find (\<lambda>x. doc_id x = ident) (map mapToDocumentMetadata (mockDocuments None)) = Some cur
         \<and> map action (events_of (updateDocument e ident updates) w) =
             ''document_viewed'' #
             (if status_changes (doc_status cur) (d_status updates)
              then [''document_status_changed''] else []) @
             (if document_updates_entries updates \<noteq> [] then [''document_edited''] else []))
      \<and> list_all matches_table (events_of (updateDocument e ident updates) w))
   \<and> (\<forall>t. fst (createTask e taskData ts) = Inr t \<longrightarrow>
      map action (events_of (createTask e taskData) ts) = [''task_created'']
      \<and> list_all matches_table (events_of (createTask e taskData) ts))
   \<and> (\<forall>t. fst (updateTask e tid changes ts) = Inr t \<longrightarrow>
      map action (events_of (updateTask e tid changes) ts) = [''task_updated'']
      \<and> list_all matches_table (events_of (updateTask e tid changes) ts))
   \<and> (\<forall>t. fst (completeTask e tid hours ts) = Inr t \<longrightarrow>
      map action (events_of (completeTask e tid hours) ts) = [''task_updated'', ''task_completed'']
      \<and> list_all matches_table (events_of (completeTask e tid hours) ts))
   \<and> (fst (deleteTask e tid ts) = Inr () \<longrightarrow>
      map action (events_of (deleteTask e tid) ts) = [''task_deleted'']
      \<and> list_all matches_table (events_of (deleteTask e tid) ts))"
proof -
  have upload: "\<forall>d. fst (uploadDocument e up w) = Inr d \<longrightarrow>
      map action (events_of (uploadDocument e up) w) =
        (if includes_str (toLowerCase (file_name (upload_file up))) ''proposal''
            \<or> ''proposal'' \<in> set (doc_tags d)
         then [''document_uploaded'', ''proposal_uploaded''] else [''document_uploaded''])
      \<and> list_all matches_table (events_of (uploadDocument e up) w)"
    using uploadDocument_events [of e up w] by auto
  have create: "\<forall>t. fst (createTask e taskData ts) = Inr t \<longrightarrow>
      map action (events_of (createTask e taskData) ts) = [''task_created'']
      \<and> list_all matches_table (events_of (createTask e taskData) ts)"
    using createTask_events [of e taskData ts] by simp
  show ?thesis
    using upload create deleteDocument_events [of e ident w] downloadDocument_events [of e ident w]
      shareDocument_events [of e ident emails w] updateDocument_events [of e ident updates w]
      updateTask_events [of e tid changes ts] completeTask_events [of e tid hours ts]
      deleteTask_events [of e tid ts]
    by blast
qed

text \<open>
  Claim C1 as stated fails: deleting the stored document "1" succeeds and emits two
  envelopes, the first of them \<^verbatim>\<open>document_viewed\<close>.
\<close>

theorem single_envelope_counterexample:
  "fst (deleteDocument env_2024 ''1'' runtime0) = Inr ()
   \<and> length (events_of (deleteDocument env_2024 ''1'') runtime0) = 2
   \<and> map action (events_of (deleteDocument env_2024 ''1'') runtime0)
       = [''document_viewed'', ''document_deleted'']"
  by (simp add: deleteDocument_def getDocument_def getDocuments_eq io_defs documentViewed_def
        documentDeleted_def delivered_simps mockDocuments_def mapToDocumentMetadata_def events_of_def)

section \<open>Uploading a document\<close>

lemma setToArray_step_set:
  "set (foldl (\<lambda>s x. if x \<in> set s then s else s @ [x]) acc xs) = set acc \<union> set xs"
  by (induction xs arbitrary: acc) auto

lemma setToArray_step_distinct:
  "distinct acc \<Longrightarrow> distinct (foldl (\<lambda>s x. if x \<in> set s then s else s @ [x]) acc xs)"
  by (induction xs arbitrary: acc) auto

lemma set_setToArray: "set (setToArray xs) = set xs"
  by (simp add: setToArray_def setToArray_step_set)

lemma distinct_setToArray: "distinct (setToArray xs)"
  by (simp add: setToArray_def setToArray_step_distinct)

lemma nda_lower: "toLowerCase ''NDA_Agreement_2024.pdf'' = ''nda_agreement_2024.pdf''"
  by code_simp

lemma text_2024: "int_toString 2024 = ''2024''"
  by code_simp

lemma text_2026: "int_toString 2026 = ''2026''"
  by code_simp

lemma pdf_type:
  "includes_str ''application/pdf'' ''pdf''"
  "\<not> includes_str ''application/pdf'' ''word''"
  "\<not> includes_str ''application/pdf'' ''excel''"
  "\<not> includes_str ''application/pdf'' ''image''"
  by code_simp+

lemma nda_name:
  "\<not> includes_str ''nda_agreement_2024.pdf'' ''contract''"
  "includes_str ''nda_agreement_2024.pdf'' ''nda''"
  "includes_str ''nda_agreement_2024.pdf'' ''agreement''"
  "\<not> includes_str ''nda_agreement_2024.pdf'' ''invoice''"
  "\<not> includes_str ''nda_agreement_2024.pdf'' ''template''"
  "\<not> includes_str ''nda_agreement_2024.pdf'' ''draft''"
  "\<not> includes_str ''nda_agreement_2024.pdf'' ''final''"
  "\<not> includes_str ''nda_agreement_2024.pdf'' ''signed''"
  "\<not> includes_str ''nda_agreement_2024.pdf'' ''proposal''"
  "includes_str ''nda_agreement_2024.pdf'' ''2024''"
  "\<not> includes_str ''nda_agreement_2024.pdf'' ''2026''"
  by code_simp+

lemma nda_autotags:
  assumes "file_name f = ''NDA_Agreement_2024.pdf''" and "file_type f = ''application/pdf''"
  shows "generateAutoTags e f w =
     (Inr ([''pdf'', ''nda'', ''confidential'', ''agreement'', ''legal''] @
           (if includes_str ''nda_agreement_2024.pdf''
                 (int_toString (getFullYear (local_offset e) (clock e (reads w))))
            then [int_toString (getFullYear (local_offset e) (clock e (reads w)))] else [])),
      w\<lparr>reads := Suc (reads w)\<rparr>)"
  unfolding generateAutoTags_def assms nda_lower Let_def
  by (simp only: pdf_type nda_name push_if_def if_True if_False append_Nil append_Cons
        await_def new_Date_def return_def prod.case sum.case)
     simp

lemma nda_upload_result:
  assumes "file_name (upload_file up) = ''NDA_Agreement_2024.pdf''"
      and "file_type (upload_file up) = ''application/pdf''"
  shows "\<exists>d ev rest. fst (uploadDocument e up w) = Inr d
     \<and> doc_tags d =
         setToArray ((case upload_tags up of None \<Rightarrow> [] | Some ts \<Rightarrow> ts) @
           [''pdf'', ''nda'', ''confidential'', ''agreement'', ''legal''] @
           (if includes_str ''nda_agreement_2024.pdf''
                 (int_toString (getFullYear (local_offset e) (clock e (reads w))))
            then [int_toString (getFullYear (local_offset e) (clock e (reads w)))] else []))
     \<and> events_of (uploadDocument e up) w = ev # rest
     \<and> action ev = ''document_uploaded''
     \<and> get_prop (get_prop (data ev) ''document'') ''tags'' = strings_json (doc_tags d)"
proof -
  note tags = nda_autotags [OF assms, of e "w\<lparr>uuids := Suc (uuids w)\<rparr>"]
  show ?thesis
    by (simp add: uploadDocument_def Let_def io_defs tags events_of_def documentUploaded_def
        proposalUploaded_def delivered_simps mapToDocumentMetadata_def)
qed

lemma year_2024: "getFullYear (local_offset env_2024) (clock env_2024 (reads runtime0)) = 2024"
  by code_simp

lemma year_2026: "getFullYear (local_offset env_2026) (clock env_2026 (reads runtime0)) = 2026"
  by code_simp

lemma nda_set_2024:
  "setToArray [''pdf'', ''nda'', ''confidential'', ''agreement'', ''legal'', ''2024'']
     = [''pdf'', ''nda'', ''confidential'', ''agreement'', ''legal'', ''2024'']"
  by code_simp

lemma nda_set_2026:
  "setToArray [''pdf'', ''nda'', ''confidential'', ''agreement'', ''legal'']
     = [''pdf'', ''nda'', ''confidential'', ''agreement'', ''legal'']"
  by code_simp

text \<open>The only year whose decimal text is 2024.\<close>

lemma decimal_nonempty: "decimal n \<noteq> []"
  by (subst decimal.simps) simp

lemma decimal_single:
  assumes "decimal n = [c]"
  shows "n < 10 \<and> digit_char n = c"
proof (cases "n < 10")
  case True
  with assms show ?thesis by (subst (asm) decimal.simps) simp
next
  case False
  with assms have "decimal (n div 10) @ [digit_char n] = [c]"
    by (subst (asm) decimal.simps) simp
  then have "decimal (n div 10) = []" by simp
  with decimal_nonempty show ?thesis by blast
qed

lemma decimal_snoc:
  assumes "decimal n = ds @ [c]" and "ds \<noteq> []"
  shows "decimal (n div 10) = ds \<and> digit_char n = c"
proof (cases "n < 10")
  case True
  with assms(1) have "[digit_char n] = ds @ [c]"
    by (subst (asm) decimal.simps) simp
  with assms(2) show ?thesis by simp
next
  case False
  with assms(1) have "decimal (n div 10) @ [digit_char n] = ds @ [c]"
    by (subst (asm) decimal.simps) simp
  then show ?thesis by simp
qed

lemma digit_char_inj:
  assumes "digit_char a = digit_char b"
  shows "a mod 10 = b mod 10"
proof -
  have d: "distinct ''0123456789''" by simp
  have a: "nat (a mod 10) < length ''0123456789''" and b: "nat (b mod 10) < length ''0123456789''"
    by simp_all
  from assms have "''0123456789'' ! nat (a mod 10) = ''0123456789'' ! nat (b mod 10)"
    by (simp only: digit_char_def)
  with nth_eq_iff_index_eq [OF d a b] have "nat (a mod 10) = nat (b mod 10)"
    by simp
  then show ?thesis by simp
qed

lemma digit_values:
  "digit_char 0 = CHR ''0''" "digit_char 2 = CHR ''2''" "digit_char 4 = CHR ''4''"
  by (simp_all add: digit_char_def)


lemma only_2024: 
  assumes "int_toString y = ''2024''"
  shows "y = 2024"
proof -
  have pos: "0 \<le> y"
  proof (rule ccontr)
    assume "\<not> 0 \<le> y"
    then have "int_toString y = CHR ''-'' # decimal (- y)"
      by (simp add: int_toString_def)
    with assms show False by simp
  qed
  then have "int_toString y = decimal y"
    by (simp add: int_toString_def)
  with assms have dec: "decimal y = ''202'' @ [CHR ''4'']"
    by simp
  define a where "a = y div 10"
  define b where "b = a div 10"
  define c where "c = b div 10"
  from decimal_snoc [OF dec] have d1: "decimal a = ''20'' @ [CHR ''2'']"
    and c1: "digit_char y = digit_char 4"
    by (simp_all add: digit_values a_def)
  from decimal_snoc [OF d1] have d2: "decimal b = ''2'' @ [CHR ''0'']"
    and c2: "digit_char a = digit_char 2"
    by (simp_all add: digit_values b_def)
  from decimal_snoc [OF d2] have d3: "decimal c = [CHR ''2'']"
    and c3: "digit_char b = digit_char 0"
    by (simp_all add: digit_values c_def)
  from decimal_single [OF d3] have small: "c < 10"
    and c4: "digit_char c = digit_char 2"
    by (simp_all add: digit_values)
  from digit_char_inj [OF c1] have y: "y mod 10 = 4" by simp
  from digit_char_inj [OF c2] have a: "a mod 10 = 2" by simp
  from digit_char_inj [OF c3] have b: "b mod 10 = 0" by simp
  from digit_char_inj [OF c4] have c: "c mod 10 = 2" by simp
  from pos have "0 \<le> c"
    by (simp add: a_def b_def c_def pos_imp_zdiv_nonneg_iff)
  with small c have "c = 2" by simp
  moreover have "b = 10 * c + b mod 10" by (simp add: c_def)
  moreover have "a = 10 * b + a mod 10" by (simp add: b_def)
  moreover have "y = 10 * a + y mod 10" by (simp add: a_def)
  ultimately show ?thesis using y a b by linarith
qed

text \<open>The amended claim C1 at the sample inputs.\<close>

lemma stored_one:
  "find (\<lambda>x. doc_id x = ''1'') (map mapToDocumentMetadata (mockDocuments None))
     = Some (mapToDocumentMetadata (hd (mockDocuments None)))"
  by (simp add: mockDocuments_def mapToDocumentMetadata_def)

lemma task_one: "findIndex (\<lambda>task. task_id task = ''1'') (mockTasks tasks0) = Some 0"
  by (simp add: tasks0_def initial_mockTasks_def)

theorem mutation_events_witness:
  "map action (events_of (uploadDocument env_2024 nda_upload) runtime0) = [''document_uploaded'']
   \<and> list_all matches_table (events_of (uploadDocument env_2024 nda_upload) runtime0)
   \<and> map action (events_of (deleteDocument env_2024 ''1'') runtime0)
       = [''document_viewed'', ''document_deleted'']
   \<and> list_all matches_table (events_of (deleteDocument env_2024 ''1'') runtime0)
   \<and> map action (events_of (downloadDocument env_2024 ''1'') runtime0)
       = [''document_viewed'', ''document_downloaded'']
   \<and> map action (events_of (shareDocument env_2024 ''1'' [''team@pocketlaw.com'']) runtime0)
       = [''document_viewed'', ''document_shared'']
   \<and> map action (events_of (updateDocument env_2024 ''1'' approve) runtime0)
       = [''document_viewed'', ''document_status_changed'', ''document_edited'']
   \<and> list_all matches_table (events_of (updateDocument env_2024 ''1'' approve) runtime0)
   \<and> map action (events_of (createTask env_2024 sample_task) tasks0) = [''task_created'']
   \<and> map action (events_of (updateTask env_2024 ''1'' retitle) tasks0) = [''task_updated'']
   \<and> map action (events_of (completeTask env_2024 ''1'' (Some 3)) tasks0)
       = [''task_updated'', ''task_completed'']
   \<and> list_all matches_table (events_of (completeTask env_2024 ''1'' (Some 3)) tasks0)
   \<and> map action (events_of (deleteTask env_2024 ''1'') tasks0) = [''task_deleted'']"
proof -
  note m = mutation_events [where e = env_2024 and up = nda_upload and w = runtime0
      and ident = "''1''" and emails = "[''team@pocketlaw.com'']" and updates = approve
      and taskData = sample_task and ts = tasks0 and tid = "''1''" and changes = retitle
      and hours = "Some 3"]
  have n: "file_name (upload_file nda_upload) = ''NDA_Agreement_2024.pdf''"
    and t: "file_type (upload_file nda_upload) = ''application/pdf''"
    and u: "upload_tags nda_upload = None"
    by (simp_all add: nda_upload_def nda_file_def)
  from nda_upload_result [OF n t, of env_2024 runtime0] obtain d where
    d: "fst (uploadDocument env_2024 nda_upload runtime0) = Inr d"
       "doc_tags d = [''pdf'', ''nda'', ''confidential'', ''agreement'', ''legal'', ''2024'']"
    by (auto simp add: year_2024 text_2024 nda_name u nda_set_2024)
  have no_proposal: "\<not> (includes_str (toLowerCase (file_name (upload_file nda_upload))) ''proposal''
            \<or> ''proposal'' \<in> set (doc_tags d))"
    by (simp add: n nda_lower nda_name d(2))
  note m1 = m [THEN conjunct1, rule_format]
  note m2 = m [THEN conjunct2, THEN conjunct1, rule_format]
  note m3 = m [THEN conjunct2, THEN conjunct2, THEN conjunct1, rule_format]
  note m4 = m [THEN conjunct2, THEN conjunct2, THEN conjunct2, THEN conjunct1, rule_format]
  note m5 = m [THEN conjunct2, THEN conjunct2, THEN conjunct2, THEN conjunct2, THEN conjunct1,
      rule_format]
  note m6 = m [THEN conjunct2, THEN conjunct2, THEN conjunct2, THEN conjunct2, THEN conjunct2,
      THEN conjunct1, rule_format]
  note m7 = m [THEN conjunct2, THEN conjunct2, THEN conjunct2, THEN conjunct2, THEN conjunct2,
      THEN conjunct2, THEN conjunct1, rule_format]
  note m8 = m [THEN conjunct2, THEN conjunct2, THEN conjunct2, THEN conjunct2, THEN conjunct2,
      THEN conjunct2, THEN conjunct2, THEN conjunct1, rule_format]
  note m9 = m [THEN conjunct2, THEN conjunct2, THEN conjunct2, THEN conjunct2, THEN conjunct2,
      THEN conjunct2, THEN conjunct2, THEN conjunct2, rule_format]
  from m1 [OF d(1)] no_proposal
  have upload: "map action (events_of (uploadDocument env_2024 nda_upload) runtime0) = [''document_uploaded'']
   \<and> list_all matches_table (events_of (uploadDocument env_2024 nda_upload) runtime0)"
    by simp
  have "fst (deleteDocument env_2024 ''1'' runtime0) = Inr ()"
    by (simp add: deleteDocument_def getDocument_found [OF stored_one] io_defs documentDeleted_def
        delivered_simps)
  from m2 [OF this] have delete: "map action (events_of (deleteDocument env_2024 ''1'') runtime0)
       = [''document_viewed'', ''document_deleted'']
   \<and> list_all matches_table (events_of (deleteDocument env_2024 ''1'') runtime0)"
    by blast
  have "\<exists>b. fst (downloadDocument env_2024 ''1'' runtime0) = Inr b"
    by (simp add: downloadDocument_def getDocument_found [OF stored_one] io_defs
        documentDownloaded_def delivered_simps)
  then obtain b where "fst (downloadDocument env_2024 ''1'' runtime0) = Inr b" ..
  from m3 [OF this] have download: "map action (events_of (downloadDocument env_2024 ''1'') runtime0)
       = [''document_viewed'', ''document_downloaded'']"
    by blast
  have "fst (shareDocument env_2024 ''1'' [''team@pocketlaw.com''] runtime0) = Inr ()"
    by (simp add: shareDocument_def getDocument_found [OF stored_one] io_defs documentShared_def
        delivered_simps)
  from m4 [OF this] have share: "map action (events_of (shareDocument env_2024 ''1'' [''team@pocketlaw.com'']) runtime0)
       = [''document_viewed'', ''document_shared'']"
    by blast
  have "\<exists>x. fst (updateDocument env_2024 ''1'' approve runtime0) = Inr x"
    by (simp add: updateDocument_def getDocument_found [OF stored_one] Let_def io_defs
        documentStatusChanged_def documentEdited_def delivered_simps approve_def
        no_document_updates_def)
  then obtain x where "fst (updateDocument env_2024 ''1'' approve runtime0) = Inr x" ..
  from m5 [OF this] obtain cur where
    cur: "find (\<lambda>x. doc_id x = ''1'') (map mapToDocumentMetadata (mockDocuments None)) = Some cur"
      "map action (events_of (updateDocument env_2024 ''1'' approve) runtime0) =
             ''document_viewed'' #
             (if status_changes (doc_status cur) (d_status approve)
              then [''document_status_changed''] else []) @
             (if document_updates_entries approve \<noteq> [] then [''document_edited''] else [])"
      "list_all matches_table (events_of (updateDocument env_2024 ''1'' approve) runtime0)"
    by (elim conjE exE) (rule that)
  from cur(1) have "doc_status cur = ''review''"
    by (auto simp add: stored_one mockDocuments_def mapToDocumentMetadata_def)
  then have changes: "status_changes (doc_status cur) (d_status approve)"
    by (simp add: status_changes_def approve_def no_document_updates_def)
  have edited: "document_updates_entries approve \<noteq> []"
    by (simp add: document_updates_entries_def approve_def no_document_updates_def property_def)
  from cur(2,3) changes edited
  have update: "map action (events_of (updateDocument env_2024 ''1'' approve) runtime0)
       = [''document_viewed'', ''document_status_changed'', ''document_edited'']
   \<and> list_all matches_table (events_of (updateDocument env_2024 ''1'' approve) runtime0)"
    by simp
  from createTask_events [of env_2024 sample_task tasks0]
  obtain nt where "fst (createTask env_2024 sample_task tasks0) = Inr nt" by blast
  from m6 [OF this]
  have create: "map action (events_of (createTask env_2024 sample_task) tasks0) = [''task_created'']"
    by blast
  have "\<exists>x. fst (updateTask env_2024 ''1'' retitle tasks0) = Inr x"
    by (simp add: updateTask_result [OF task_one])
  then obtain rt where "fst (updateTask env_2024 ''1'' retitle tasks0) = Inr rt" ..
  from m7 [OF this] have retitled: "map action (events_of (updateTask env_2024 ''1'' retitle) tasks0) = [''task_updated'']"
    by blast
  have "\<exists>x. fst (completeTask env_2024 ''1'' (Some 3) tasks0) = Inr x"
    by (simp add: completeTask_def updateTask_result [OF task_one] Let_def io_defs
        taskCompleted_def delivered_simps)
  then obtain ct where "fst (completeTask env_2024 ''1'' (Some 3) tasks0) = Inr ct" ..
  from m8 [OF this] have complete: "map action (events_of (completeTask env_2024 ''1'' (Some 3)) tasks0)
       = [''task_updated'', ''task_completed'']
   \<and> list_all matches_table (events_of (completeTask env_2024 ''1'' (Some 3)) tasks0)"
    by blast
  have "fst (deleteTask env_2024 ''1'' tasks0) = Inr ()"
    using task_one
    by (simp add: deleteTask_def Let_def io_defs taskDeleted_def delivered_simps)
  from m9 [OF this] have deleted: "map action (events_of (deleteTask env_2024 ''1'') tasks0) = [''task_deleted'']"
    by blast
  from upload delete download share update create retitled complete deleted
  show ?thesis by blast
qed

text \<open>
  Claim C4, as amended. When the local calendar year at the time of the upload is 2024, a
  file named "NDA_Agreement_2024.pdf" of type application/pdf gets the caller's tags
  followed by pdf, nda, confidential, agreement, legal and 2024, each kept once; the
  first envelope of the upload is \<^verbatim>\<open>document_uploaded\<close> and carries those tags.
  In any other year the tag 2024 is not generated: it is not among the automatic tags,
  and the document has it only when the caller passed it.
\<close>

theorem nda_upload_tags:
  assumes "file_name (upload_file up) = ''NDA_Agreement_2024.pdf''"
      and "file_type (upload_file up) = ''application/pdf''"
  shows "(getFullYear (local_offset e) (clock e (reads w)) = 2024 \<longrightarrow>
      (\<exists>d ev rest. fst (uploadDocument e up w) = Inr d
         \<and> doc_tags d =
             setToArray ((case upload_tags up of None \<Rightarrow> [] | Some ts \<Rightarrow> ts) @
               [''pdf'', ''nda'', ''confidential'', ''agreement'', ''legal'', ''2024''])
         \<and> {''nda'', ''agreement'', ''legal'', ''2024'', ''pdf''} \<subseteq> set (doc_tags d)
         \<and> distinct (doc_tags d)
         \<and> events_of (uploadDocument e up) w = ev # rest
         \<and> action ev = ''document_uploaded''
         \<and> get_prop (get_prop (data ev) ''document'') ''tags'' = strings_json (doc_tags d)))
   \<and> (getFullYear (local_offset e) (clock e (reads w)) \<noteq> 2024 \<longrightarrow>
      (\<exists>tags. fst (generateAutoTags e (upload_file up) w) = Inr tags \<and> ''2024'' \<notin> set tags)
      \<and> (\<exists>d. fst (uploadDocument e up w) = Inr d
             \<and> (''2024'' \<in> set (doc_tags d))
                 = (''2024'' \<in> set (case upload_tags up of None \<Rightarrow> [] | Some ts \<Rightarrow> ts))))"
proof (intro conjI impI)
  assume year: "getFullYear (local_offset e) (clock e (reads w)) = 2024"
  from nda_upload_result [OF assms, of e w] obtain d ev rest where
    r: "fst (uploadDocument e up w) = Inr d"
       "doc_tags d =
         setToArray ((case upload_tags up of None \<Rightarrow> [] | Some ts \<Rightarrow> ts) @
           [''pdf'', ''nda'', ''confidential'', ''agreement'', ''legal'', ''2024''])"
       "events_of (uploadDocument e up) w = ev # rest"
       "action ev = ''document_uploaded''"
       "get_prop (get_prop (data ev) ''document'') ''tags'' = strings_json (doc_tags d)"
    by (auto simp add: year text_2024 nda_name)
  have "{''nda'', ''agreement'', ''legal'', ''2024'', ''pdf''} \<subseteq> set (doc_tags d)"
    by (simp add: r(2) set_setToArray)
  moreover have "distinct (doc_tags d)"
    by (simp add: r(2) distinct_setToArray)
  ultimately show "\<exists>d ev rest. fst (uploadDocument e up w) = Inr d
         \<and> doc_tags d =
             setToArray ((case upload_tags up of None \<Rightarrow> [] | Some ts \<Rightarrow> ts) @
               [''pdf'', ''nda'', ''confidential'', ''agreement'', ''legal'', ''2024''])
         \<and> {''nda'', ''agreement'', ''legal'', ''2024'', ''pdf''} \<subseteq> set (doc_tags d)
         \<and> distinct (doc_tags d)
         \<and> events_of (uploadDocument e up) w = ev # rest
         \<and> action ev = ''document_uploaded''
         \<and> get_prop (get_prop (data ev) ''document'') ''tags'' = strings_json (doc_tags d)"
    using r by blast
next
  assume "getFullYear (local_offset e) (clock e (reads w)) \<noteq> 2024"
  with only_2024
  have other: "int_toString (getFullYear (local_offset e) (clock e (reads w))) \<noteq> ''2024''"
    by blast
  then show "\<exists>tags. fst (generateAutoTags e (upload_file up) w) = Inr tags \<and> ''2024'' \<notin> set tags"
    by (simp add: nda_autotags [OF assms])
next
  assume "getFullYear (local_offset e) (clock e (reads w)) \<noteq> 2024"
  with only_2024
  have other: "int_toString (getFullYear (local_offset e) (clock e (reads w))) \<noteq> ''2024''"
    by blast
  from nda_upload_result [OF assms, of e w] obtain d where
    r: "fst (uploadDocument e up w) = Inr d"
       "doc_tags d =
         setToArray ((case upload_tags up of None \<Rightarrow> [] | Some ts \<Rightarrow> ts) @
           [''pdf'', ''nda'', ''confidential'', ''agreement'', ''legal''] @
           (if includes_str ''nda_agreement_2024.pdf''
                 (int_toString (getFullYear (local_offset e) (clock e (reads w))))
            then [int_toString (getFullYear (local_offset e) (clock e (reads w)))] else []))"
    by blast
  from other have "(''2024'' \<in> set (doc_tags d))
      = (''2024'' \<in> set (case upload_tags up of None \<Rightarrow> [] | Some ts \<Rightarrow> ts))"
    by (auto simp add: r(2) set_setToArray)
  with r(1) show "\<exists>d. fst (uploadDocument e up w) = Inr d
             \<and> (''2024'' \<in> set (doc_tags d))
                 = (''2024'' \<in> set (case upload_tags up of None \<Rightarrow> [] | Some ts \<Rightarrow> ts))"
    by blast
qed

theorem nda_upload_tags_witness:
  "(\<exists>d ev rest. fst (uploadDocument env_2024 nda_upload runtime0) = Inr d
     \<and> doc_tags d = [''pdf'', ''nda'', ''confidential'', ''agreement'', ''legal'', ''2024'']
     \<and> events_of (uploadDocument env_2024 nda_upload) runtime0 = ev # rest
     \<and> action ev = ''document_uploaded''
     \<and> get_prop (get_prop (data ev) ''document'') ''tags'' = strings_json (doc_tags d))
   \<and> (\<exists>tags. fst (generateAutoTags env_2026 (upload_file nda_upload) runtime0) = Inr tags
          \<and> ''2024'' \<notin> set tags)
   \<and> (\<exists>d. fst (uploadDocument env_2026 nda_upload runtime0) = Inr d
          \<and> ''2024'' \<notin> set (doc_tags d))"
proof -
  have n: "file_name (upload_file nda_upload) = ''NDA_Agreement_2024.pdf''"
    and t: "file_type (upload_file nda_upload) = ''application/pdf''"
    and u: "upload_tags nda_upload = None"
    by (simp_all add: nda_upload_def nda_file_def)
  have later: "getFullYear (local_offset env_2026) (clock env_2026 (reads runtime0)) \<noteq> 2024"
    by (simp add: year_2026)
  from nda_upload_tags [OF n t, of env_2024 runtime0, THEN conjunct1, rule_format, OF year_2024]
  obtain d ev rest where
    "fst (uploadDocument env_2024 nda_upload runtime0) = Inr d"
    "doc_tags d = [''pdf'', ''nda'', ''confidential'', ''agreement'', ''legal'', ''2024'']"
    "events_of (uploadDocument env_2024 nda_upload) runtime0 = ev # rest"
    "action ev = ''document_uploaded''"
    "get_prop (get_prop (data ev) ''document'') ''tags'' = strings_json (doc_tags d)"
    by (auto simp add: u nda_set_2024)
  then have first: "\<exists>d ev rest. fst (uploadDocument env_2024 nda_upload runtime0) = Inr d
     \<and> doc_tags d = [''pdf'', ''nda'', ''confidential'', ''agreement'', ''legal'', ''2024'']
     \<and> events_of (uploadDocument env_2024 nda_upload) runtime0 = ev # rest
     \<and> action ev = ''document_uploaded''
     \<and> get_prop (get_prop (data ev) ''document'') ''tags'' = strings_json (doc_tags d)"
    by blast
  from nda_upload_tags [OF n t, of env_2026 runtime0, THEN conjunct2, rule_format, OF later]
  have second: "(\<exists>tags. fst (generateAutoTags env_2026 (upload_file nda_upload) runtime0) = Inr tags
          \<and> ''2024'' \<notin> set tags)
   \<and> (\<exists>d. fst (uploadDocument env_2026 nda_upload runtime0) = Inr d
          \<and> ''2024'' \<notin> set (doc_tags d))"
    by (simp add: u)
  from first second show ?thesis by blast
qed

text \<open>
  Claim C4 as stated fails: the year tag is the current year, so the same upload made in
  2026 has no tag 2024.
\<close>

theorem nda_upload_counterexample:
  "map_sum id doc_tags (fst (uploadDocument env_2026 nda_upload runtime0))
     = Inr [''pdf'', ''nda'', ''confidential'', ''agreement'', ''legal'']"
proof -
  have n: "file_name (upload_file nda_upload) = ''NDA_Agreement_2024.pdf''"
    and t: "file_type (upload_file nda_upload) = ''application/pdf''"
    and u: "upload_tags nda_upload = None"
    by (simp_all add: nda_upload_def nda_file_def)
  from nda_upload_result [OF n t, of env_2026 runtime0] obtain d where
    "fst (uploadDocument env_2026 nda_upload runtime0) = Inr d"
    "doc_tags d = [''pdf'', ''nda'', ''confidential'', ''agreement'', ''legal'']"
    by (auto simp add: year_2026 text_2026 nda_name u nda_set_2026)
  then show ?thesis by simp
qed

section \<open>The catalog\<close>

lemma invoke_emits_one: "length (events_of (invoke e c) w) = 1"
  by (cases c) (simp_all add: events_of_def catalog_defs io_defs delivered_simps)

lemma invoke_events: "events_of (invoke e c) w = [envelope_of e c w]"
  using invoke_emits_one [of e c w]
  by (cases "events_of (invoke e c) w") (simp_all add: envelope_of_def)

lemma envelope_in_table:
  "(\<forall>schema. section6_table (action (envelope_of e c w)) = Some schema \<longrightarrow>
       conforms (data (envelope_of e c w)) schema)
   \<and> (section6_table (action (envelope_of e c w)) = None \<longrightarrow>
       action (envelope_of e c w) \<in> set unlisted_actions)"
  by (cases c)
     (simp_all add: envelope_of_def events_of_def catalog_defs io_defs delivered_simps
        section6_table_def unlisted_actions_def)

lemma fields_of_values:
  "fields (strings_json xs) = []"
  "fields (nullable_json JStr x) = []"
  "fields (option_json JStr y) = []"
  "fields (option_json JNum z) = []"
  by (cases x; cases y; cases z; simp add: strings_json_def option_json_def)+

lemma envelope_same_shape:
  "action (envelope_of e c w) = action (envelope_of e' c' w') \<Longrightarrow>
     fields (data (envelope_of e c w)) = fields (data (envelope_of e' c' w'))
     \<and> (''changes'' \<notin> set (fields (data (envelope_of e c w))) \<longrightarrow>
          shape (data (envelope_of e c w)) = shape (data (envelope_of e' c' w')))"
  by (cases c; cases c')
     (simp_all add: envelope_of_def events_of_def catalog_defs io_defs delivered_simps
        fields_of_values)

lemma envelope_listed:
  "listed c \<Longrightarrow> matches_table (envelope_of e c w)"
  by (cases c)
     (simp_all add: envelope_of_def events_of_def catalog_defs io_defs delivered_simps
        matches_table_def section6_table_def)

lemma envelope_unlisted:
  "\<not> listed c \<Longrightarrow>
     section6_table (action (envelope_of e c w)) = None
     \<and> action (envelope_of e c w) \<in> set unlisted_actions"
  by (cases c)
     (simp_all add: envelope_of_def events_of_def catalog_defs io_defs delivered_simps
        section6_table_def unlisted_actions_def)

text \<open>
  Claim C3, as amended. Every catalog call emits one envelope. For the fifteen catalog
  functions whose action the table of section 6 lists, \<^verbatim>\<open>data\<close> has exactly the
  fields the table gives for that action; the seven other functions emit the actions
  the table has no row for. For \<^verbatim>\<open>document_uploaded\<close>, \<^verbatim>\<open>size\<close> is the
  document's \<^verbatim>\<open>fileSize\<close> and \<^verbatim>\<open>url\<close> its \<^verbatim>\<open>fileUrl\<close>;
  \<^verbatim>\<open>task_completed\<close> carries id, title, completedAt and actualHours. For every
  catalog function, listed or not, two envelopes with the same action have the same
  fields in \<^verbatim>\<open>data\<close>, and, unless \<^verbatim>\<open>data\<close> carries the caller's
  \<^verbatim>\<open>changes\<close>, the same fields one level below.
\<close>

theorem catalog_data_shape:
  fixes e :: env and c :: "'u catalog_call" and w :: "'a runtime_scheme"
    and e' :: env and c' :: "'v catalog_call" and w' :: "'b runtime_scheme"
  defines "p \<equiv> envelope_of e c w" and "p' \<equiv> envelope_of e' c' w'"
  shows "events_of (invoke e c) w = [p]
     \<and> (listed c \<longrightarrow> matches_table p)
     \<and> (\<not> listed c \<longrightarrow> section6_table (action p) = None)
     \<and> (\<forall>schema. section6_table (action p) = Some schema \<longrightarrow> conforms (data p) schema)
     \<and> (section6_table (action p) = None \<longrightarrow> action p \<in> set unlisted_actions)
     \<and> (\<forall>u d. c = DocumentUploaded u d \<longrightarrow>
           action p = ''document_uploaded''
           \<and> get_prop (get_prop (data p) ''document'') ''size'' = JNum (fileSize d)
           \<and> get_prop (get_prop (data p) ''document'') ''url'' = JStr (fileUrl d))
     \<and> (\<forall>u t. c = TaskCompleted u t \<longrightarrow>
           action p = ''task_completed''
           \<and> fields (get_prop (data p) ''task'') = [''id'', ''title'', ''completedAt'', ''actualHours'']
           \<and> get_prop (get_prop (data p) ''task'') ''actualHours'' = option_json JNum (actualHours t))
     \<and> (action p = action p' \<longrightarrow>
           fields (data p) = fields (data p')
           \<and> (''changes'' \<notin> set (fields (data p)) \<longrightarrow> shape (data p) = shape (data p')))"
proof -
  have one: "events_of (invoke e c) w = [p]"
    unfolding p_def by (rule invoke_events)
  have uploaded: "\<forall>u d. c = DocumentUploaded u d \<longrightarrow>
           action p = ''document_uploaded''
           \<and> get_prop (get_prop (data p) ''document'') ''size'' = JNum (fileSize d)
           \<and> get_prop (get_prop (data p) ''document'') ''url'' = JStr (fileUrl d)"
    unfolding p_def
    by (simp add: envelope_of_def events_of_def documentUploaded_def io_defs delivered_simps)
  have completed: "\<forall>u t. c = TaskCompleted u t \<longrightarrow>
           action p = ''task_completed''
           \<and> fields (get_prop (data p) ''task'') = [''id'', ''title'', ''completedAt'', ''actualHours'']
           \<and> get_prop (get_prop (data p) ''task'') ''actualHours'' = option_json JNum (actualHours t)"
    unfolding p_def
    by (simp add: envelope_of_def events_of_def taskCompleted_def io_defs delivered_simps)
  show ?thesis
    using one uploaded completed envelope_in_table [of e c w]
      envelope_same_shape [of e c w e' c' w'] envelope_listed [of c e w]
      envelope_unlisted [of c e w]
    unfolding p_def p'_def by blast
qed

lemma completion_envelope:
  "action (envelope_of e (TaskCompleted u t) w) = ''task_completed''"
  by (simp add: envelope_of_def events_of_def taskCompleted_def io_defs delivered_simps)

lemma table_completed:
  "section6_table ''task_completed''
     = Some [Nested ''task'' [''id'', ''title'', ''completedAt'', ''actualHours'']]"
  by (simp add: section6_table_def)

lemma invitation_envelope:
  "action (envelope_of e (UserInvited u a b) w) = ''user_invited''"
  by (simp add: envelope_of_def events_of_def userInvited_def io_defs delivered_simps)

lemma table_invited: "section6_table ''user_invited'' = None"
  by (simp add: section6_table_def)

theorem catalog_data_shape_witness:
  "matches_table (envelope_of env_2024 sample_completion runtime0)
   \<and> section6_table (action (envelope_of env_2024 sample_invitation runtime0)) = None
   \<and> conforms (data (envelope_of env_2024 sample_completion runtime0))
     [Nested ''task'' [''id'', ''title'', ''completedAt'', ''actualHours'']]
   \<and> fields (get_prop (data (envelope_of env_2024 sample_completion runtime0)) ''task'')
       = [''id'', ''title'', ''completedAt'', ''actualHours'']
   \<and> get_prop (get_prop (data (envelope_of env_2024 sample_completion runtime0)) ''task'')
         ''actualHours'' = JNum 2
   \<and> shape (data (envelope_of env_2024 sample_completion runtime0))
       = shape (data (envelope_of env_2026 other_completion runtime0))
   \<and> get_prop (get_prop (data (envelope_of env_2024 sample_upload_call runtime0)) ''document'')
         ''size'' = JNum 245000
   \<and> get_prop (get_prop (data (envelope_of env_2024 sample_upload_call runtime0)) ''document'')
         ''url'' = JStr ''https://example.com/documents/service-agreement.pdf''
   \<and> action (envelope_of env_2024 sample_invitation runtime0) \<in> set unlisted_actions"
proof -
  note a = catalog_data_shape [of env_2024 sample_completion runtime0 env_2026 other_completion
      runtime0]
  have act: "action (envelope_of env_2024 sample_completion runtime0) = ''task_completed''"
    "action (envelope_of env_2026 other_completion runtime0) = ''task_completed''"
    by (simp_all add: sample_completion_def other_completion_def completion_envelope)
  have c: "sample_completion = TaskCompleted mockUser (initial_mockTasks ! 0)"
    by (simp add: sample_completion_def)
  have hours: "option_json JNum (actualHours (initial_mockTasks ! 0)) = JNum 2"
    by (simp add: initial_mockTasks_def option_json_def)
  have no_changes: "''changes'' \<notin> set (fields (data (envelope_of env_2024 sample_completion runtime0)))"
    by (simp add: sample_completion_def envelope_of_def events_of_def taskCompleted_def io_defs
        delivered_simps)
  from a act table_completed c hours no_changes
  have first: "conforms (data (envelope_of env_2024 sample_completion runtime0))
     [Nested ''task'' [''id'', ''title'', ''completedAt'', ''actualHours'']]
   \<and> fields (get_prop (data (envelope_of env_2024 sample_completion runtime0)) ''task'')
       = [''id'', ''title'', ''completedAt'', ''actualHours'']
   \<and> get_prop (get_prop (data (envelope_of env_2024 sample_completion runtime0)) ''task'')
         ''actualHours'' = JNum 2
   \<and> shape (data (envelope_of env_2024 sample_completion runtime0))
       = shape (data (envelope_of env_2026 other_completion runtime0))"
    by (metis (no_types, lifting))
  note b = catalog_data_shape [of env_2024 sample_upload_call runtime0 env_2024
      sample_upload_call runtime0]
  have u: "sample_upload_call
      = DocumentUploaded mockUser (mapToDocumentMetadata (mockDocuments None ! 0))"
    by (simp add: sample_upload_call_def)
  have doc: "fileSize (mapToDocumentMetadata (mockDocuments None ! 0)) = 245000"
    "fileUrl (mapToDocumentMetadata (mockDocuments None ! 0))
       = ''https://example.com/documents/service-agreement.pdf''"
    by (simp_all add: mockDocuments_def mapToDocumentMetadata_def)
  from b u doc
  have second: "get_prop (get_prop (data (envelope_of env_2024 sample_upload_call runtime0)) ''document'')
         ''size'' = JNum 245000
   \<and> get_prop (get_prop (data (envelope_of env_2024 sample_upload_call runtime0)) ''document'')
         ''url'' = JStr ''https://example.com/documents/service-agreement.pdf''"
    by (metis (no_types, lifting))
  note d = catalog_data_shape [of env_2024 sample_invitation runtime0 env_2024
      sample_invitation runtime0]
  have "section6_table (action (envelope_of env_2024 sample_invitation runtime0)) = None"
    by (simp add: sample_invitation_def invitation_envelope table_invited)
  with d have third: "action (envelope_of env_2024 sample_invitation runtime0) \<in> set unlisted_actions"
    by blast
  have "listed sample_completion"
    by (simp add: sample_completion_def)
  with a have fourth: "matches_table (envelope_of env_2024 sample_completion runtime0)"
    by blast
  have "\<not> listed sample_invitation"
    by (simp add: sample_invitation_def)
  with d have fifth: "section6_table (action (envelope_of env_2024 sample_invitation runtime0)) = None"
    by blast
  from first second third fourth fifth show ?thesis by blast
qed

text \<open>
  Claim C3 as stated fails: \<^verbatim>\<open>folderDeleted\<close> is a catalog operation, and the table
  of section 6 fixes no fields for the action it emits.
\<close>

theorem unlisted_action_counterexample:
  "action (envelope_of env_2024 sample_folder_deletion runtime0) = ''folder_deleted''
   \<and> section6_table ''folder_deleted'' = None
   \<and> \<not> matches_table (envelope_of env_2024 sample_folder_deletion runtime0)"
  by (simp add: sample_folder_deletion_def envelope_of_def events_of_def folderDeleted_def
      io_defs delivered_simps matches_table_def section6_table_def)

lemma envelope_repeats:
  "action (envelope_of e c w) = action (envelope_of e c w')
   \<and> user (envelope_of e c w) = user (envelope_of e c w')
   \<and> without (clock_field c) (data (envelope_of e c w))
       = without (clock_field c) (data (envelope_of e c w'))"
  by (cases c)
     (simp_all add: envelope_of_def events_of_def catalog_defs io_defs delivered_simps)

lemma envelope_without_clock:
  "clock_field c = [] \<Longrightarrow>
     (envelope_of e c w)\<lparr>timestamp := t\<rparr> = (envelope_of e c w')\<lparr>timestamp := t\<rparr>"
  by (cases c)
     (simp_all add: envelope_of_def events_of_def catalog_defs io_defs delivered_simps)

text \<open>
  Claim C6, as amended. Two calls of the same catalog function with the same arguments,
  in any two states, emit envelopes with the same action and the same user, and with the
  same data once the field the function stamps from the clock is left out:
  \<^verbatim>\<open>task.completedAt\<close> for \<^verbatim>\<open>taskCompleted\<close>, \<^verbatim>\<open>loginTime\<close> for
  \<^verbatim>\<open>systemLogin\<close>, \<^verbatim>\<open>logoutTime\<close> for \<^verbatim>\<open>systemLogout\<close>. For the other
  nineteen functions the envelopes are equal except for \<^verbatim>\<open>timestamp\<close>.
\<close>

theorem catalog_repeatable:
  "action (envelope_of e c w) = action (envelope_of e c w')
   \<and> user (envelope_of e c w) = user (envelope_of e c w')
   \<and> without (clock_field c) (data (envelope_of e c w))
       = without (clock_field c) (data (envelope_of e c w'))
   \<and> (clock_field c = [] \<longrightarrow>
        (envelope_of e c w)\<lparr>timestamp := t\<rparr> = (envelope_of e c w')\<lparr>timestamp := t\<rparr>)"
  using envelope_repeats [where e = e and c = c and w = w and w' = w']
    envelope_without_clock [where e = e and c = c and w = w and w' = w' and t = t]
  by blast

lemma completion_data:
  "data (envelope_of e (TaskCompleted u t) w) =
     JObj [(''task'', JObj
       [(''id'', JStr (task_id t)), (''title'', JStr (title t)),
        (''completedAt'', JStr (toISOString (clock e (Suc (reads w))))),
        (''actualHours'', option_json JNum (actualHours t))])]"
  by (simp add: envelope_of_def events_of_def taskCompleted_def io_defs delivered_simps)

lemma completion_reads: "reads (snd (taskCompleted e u t w)) = Suc (Suc (reads w))"
  by (simp add: taskCompleted_def io_defs delivered_simps)

lemma two_instants:
  "toISOString (clock env_2024 (Suc 0)) \<noteq> toISOString (clock env_2024 (Suc (Suc (Suc 0))))"
  by code_simp

text \<open>
  Claim C6 as stated fails: two successive calls of \<^verbatim>\<open>taskCompleted\<close> for the same
  user and task differ in \<^verbatim>\<open>data.task.completedAt\<close>, not only in the timestamp.
\<close>

theorem repeat_counterexample:
  "(envelope_of env_2024 sample_completion runtime0)\<lparr>timestamp := []\<rparr>
     \<noteq> (envelope_of env_2024 sample_completion
          (snd (invoke env_2024 sample_completion runtime0)))\<lparr>timestamp := []\<rparr>"
proof
  assume "(envelope_of env_2024 sample_completion runtime0)\<lparr>timestamp := []\<rparr>
     = (envelope_of env_2024 sample_completion
          (snd (invoke env_2024 sample_completion runtime0)))\<lparr>timestamp := []\<rparr>"
  then have "data ((envelope_of env_2024 sample_completion runtime0)\<lparr>timestamp := []\<rparr>)
     = data ((envelope_of env_2024 sample_completion
          (snd (invoke env_2024 sample_completion runtime0)))\<lparr>timestamp := []\<rparr>)"
    by (rule arg_cong)
  then have "toISOString (clock env_2024 (Suc 0)) = toISOString (clock env_2024 (Suc (Suc (Suc 0))))"
    by (simp add: sample_completion_def completion_data completion_reads runtime0_def)
  with two_instants show False by contradiction
qed

theorem catalog_repeatable_witness:
  "(envelope_of env_2024 sample_deletion runtime0)\<lparr>timestamp := []\<rparr>
     = (envelope_of env_2024 sample_deletion
          (snd (invoke env_2024 sample_deletion runtime0)))\<lparr>timestamp := []\<rparr>
   \<and> without [''task'', ''completedAt''] (data (envelope_of env_2024 sample_completion runtime0))
     = without [''task'', ''completedAt'']
         (data (envelope_of env_2024 sample_completion
            (snd (invoke env_2024 sample_completion runtime0))))"
proof -
  have d: "clock_field sample_deletion = []"
    by (simp add: sample_deletion_def)
  have c: "clock_field sample_completion = [''task'', ''completedAt'']"
    by (simp add: sample_completion_def)
  from catalog_repeatable [of env_2024 sample_deletion runtime0
      "snd (invoke env_2024 sample_deletion runtime0)" "[]"] d
  have first: "(envelope_of env_2024 sample_deletion runtime0)\<lparr>timestamp := []\<rparr>
     = (envelope_of env_2024 sample_deletion
          (snd (invoke env_2024 sample_deletion runtime0)))\<lparr>timestamp := []\<rparr>"
    by blast
  from catalog_repeatable [of env_2024 sample_completion runtime0
      "snd (invoke env_2024 sample_completion runtime0)" "[]"] c
  have second: "without [''task'', ''completedAt''] (data (envelope_of env_2024 sample_completion runtime0))
     = without [''task'', ''completedAt'']
         (data (envelope_of env_2024 sample_completion
            (snd (invoke env_2024 sample_completion runtime0))))"
    by simp
  from first second show ?thesis by blast
qed

end
